theory Spec2Isabelle
  imports Complex_Main "HOL-Library.Sublist"
begin

section \<open>Strings\<close>

text \<open>
  A \<^typ>\<open>string\<close> is the UTF-8 byte sequence of a JavaScript string. The five characters
  that \<open>escapeXml\<close> treats and every character of the markup the reporter emits are
  ASCII, so they are single bytes that never occur inside a multi-byte sequence.
\<close>

definition replaceAll :: "char \<Rightarrow> string \<Rightarrow> string \<Rightarrow> string" where
  \<comment> \<open>\<open>s.replace(/c/g, rep)\<close> for a one-character pattern and a replacement without \<open>$\<close>\<close>
  "replaceAll c rep s = concat (map (\<lambda>x. if x = c then rep else [x]) s)"

definition join :: "string \<Rightarrow> string list \<Rightarrow> string" where
  \<comment> \<open>\<open>Array.prototype.join\<close> on an array of strings\<close>
  "join sep xs = (case xs of [] \<Rightarrow> [] | y # ys \<Rightarrow> y @ concat (map (\<lambda>z. sep @ z) ys))"

section \<open>TestReporter.escapeXml\<close>

text \<open>
  \<^verbatim>\<open>
  private escapeXml(unsafe: string = ''): string {
    return unsafe
      .replace(/&/g, '&amp;')
      .replace(/</g, '&lt;')
      .replace(/>/g, '&gt;')
      .replace(/"/g, '&quot;')
      .replace(/'/g, '&apos;');
  }
  \<close>
  Every call in the reporter passes a string, so the default of the parameter is never
  taken.
\<close>

definition escapeXml :: "string \<Rightarrow> string" where
  \<open>escapeXml unsafe =
     replaceAll (CHR 0x27) ''&apos;''
       (replaceAll (CHR 0x22) ''&quot;''
         (replaceAll CHR ''>'' ''&gt;''
           (replaceAll CHR ''<'' ''&lt;''
             (replaceAll CHR ''&'' ''&amp;'' unsafe))))\<close>

text \<open>The entity that stands for one character of the input, the character itself when it
  is none of the five.\<close>

definition xml_entity :: "char \<Rightarrow> string" where
  \<open>xml_entity c =
     (if c = CHR ''&'' then ''&amp;''
      else if c = CHR ''<'' then ''&lt;''
      else if c = CHR ''>'' then ''&gt;''
      else if c = CHR 0x22 then ''&quot;''
      else if c = CHR 0x27 then ''&apos;''
      else [c])\<close>

text \<open>Text that is safe inside an attribute value and inside an element body: it has no
  literal \<open><\<close>, \<open>>\<close>, double or single quote, and every \<open>&\<close> in it starts one of the five
  entity references.\<close>

fun escaped_text :: "string \<Rightarrow> bool" where
  "escaped_text [] = True"
| "escaped_text (c # cs) =
     ((if c = CHR ''&''
       then prefix ''amp;'' cs \<or> prefix ''lt;'' cs \<or> prefix ''gt;'' cs
            \<or> prefix ''quot;'' cs \<or> prefix ''apos;'' cs
       else c \<noteq> CHR ''<'' \<and> c \<noteq> CHR ''>'' \<and> c \<noteq> CHR 0x22 \<and> c \<noteq> CHR 0x27)
      \<and> escaped_text cs)"

lemma replaceAll_Nil [simp]: "replaceAll c rep [] = []"
  by (simp add: replaceAll_def)

lemma replaceAll_append [simp]:
  "replaceAll c rep (xs @ ys) = replaceAll c rep xs @ replaceAll c rep ys"
  by (simp add: replaceAll_def)

lemma replaceAll_Cons:
  "replaceAll c rep (x # xs) = (if x = c then rep else [x]) @ replaceAll c rep xs"
  by (simp add: replaceAll_def)

lemma escapeXml_Nil [simp]: "escapeXml [] = []"
  by (simp add: escapeXml_def)

lemma escapeXml_Cons: "escapeXml (c # cs) = xml_entity c @ escapeXml cs"
  by (simp add: escapeXml_def xml_entity_def replaceAll_Cons)

lemma escapeXml_append: "escapeXml (xs @ ys) = escapeXml xs @ escapeXml ys"
  by (simp add: escapeXml_def)

lemma escapeXml_concat_map: "escapeXml s = concat (map xml_entity s)"
  by (induction s) (simp_all add: escapeXml_Cons)

lemma escaped_text_entity: "escaped_text cs \<Longrightarrow> escaped_text (xml_entity c @ cs)"
  by (simp add: xml_entity_def)

lemma escaped_text_escapeXml: "escaped_text (escapeXml s)"
  by (induction s) (simp_all add: escapeXml_Cons escaped_text_entity)

section \<open>JavaScript values\<close>

text \<open>
  The runners hand the result of \<open>JSON.parse\<close>, of type \<open>any\<close>, to the normalizers, which
  read it with member access, \<open>||\<close>, \<open>?.\<close>, \<open>===\<close>, \<open>for ... of\<close> and template literals.
  These are modelled on the values \<open>JSON.parse\<close> can return; \<open>undefined\<close> is \<open>None\<close>.
  An object is the list of its own properties, one entry per key. A number is the exact
  rational value of a finite double; the arithmetic on numbers is not that of the
  rationals but the rounding arithmetic of the engine.
\<close>

datatype json =
    JNull
  | JBool bool
  | JNum rat
  | JStr string
  | JArr "json list"
  | JObj "(string \<times> json) list"

type_synonym jsval = "json option"

text \<open>What a \<open>catch\<close> clause can receive here: the rejection of the promisified \<open>exec\<close>
  (which carries the captured \<open>stdout\<close> as a property), the \<open>SyntaxError\<close> of \<open>JSON.parse\<close>,
  a \<open>TypeError\<close> of the runtime, and an \<open>Error\<close> made with \<open>new Error(message)\<close>. The
  wording of a \<open>TypeError\<close> is the engine's; it is written schematically.\<close>

datatype exn =
    ExecError string "string option"
  | SyntaxError string
  | TypeError string
  | PlainError string

fun message :: "exn \<Rightarrow> string" where
  "message (ExecError m out) = m"
| "message (SyntaxError m) = m"
| "message (TypeError m) = m"
| "message (PlainError m) = m"

fun exn_stdout :: "exn \<Rightarrow> string option" where
  \<comment> \<open>\<open>(error as any).stdout\<close>\<close>
  "exn_stdout (ExecError m out) = out"
| "exn_stdout (SyntaxError m) = None"
| "exn_stdout (TypeError m) = None"
| "exn_stdout (PlainError m) = None"

text \<open>The parts of the JavaScript engine that the code calls and that are taken as given:
  \<open>JSON.parse\<close> (\<open>Inl\<close> is the message of its \<open>SyntaxError\<close>), \<open>JSON.stringify(v)\<close>,
  \<open>JSON.stringify(v, null, 2)\<close>, the conversion of a number to a string,
  \<open>(x / 1000).toFixed(2)\<close>, which rounds the double, and the operations \<open>+\<close>, \<open>/\<close> and
  \<open>*\<close> on doubles, each of which rounds its exact result to a double.\<close>

record engine =
  JSON_parse :: "string \<Rightarrow> string + json"
  JSON_stringify :: "json \<Rightarrow> string"
  JSON_stringify_indent2 :: "json \<Rightarrow> string"
  Number_toString :: "rat \<Rightarrow> string"
  seconds_toFixed2 :: "rat \<Rightarrow> string"
  num_add :: "rat \<Rightarrow> rat \<Rightarrow> rat"
  num_div :: "rat \<Rightarrow> rat \<Rightarrow> rat"
  num_mul :: "rat \<Rightarrow> rat \<Rightarrow> rat"

definition andThen :: "exn + 'a \<Rightarrow> ('a \<Rightarrow> exn + 'b) \<Rightarrow> exn + 'b" where
  \<comment> \<open>sequencing: a thrown exception skips the rest\<close>
  "andThen m f = (case m of Inl e \<Rightarrow> Inl e | Inr x \<Rightarrow> f x)"

definition tryCatch :: "exn + 'a \<Rightarrow> (exn \<Rightarrow> exn + 'a) \<Rightarrow> exn + 'a" where
  \<comment> \<open>\<open>try { m } catch (err) { handler }\<close>\<close>
  "tryCatch m handler = (case m of Inl e \<Rightarrow> handler e | Inr x \<Rightarrow> Inr x)"

fun forOf :: "'a list \<Rightarrow> ('a \<Rightarrow> 's \<Rightarrow> exn + 's) \<Rightarrow> 's \<Rightarrow> exn + 's" where
  \<comment> \<open>\<open>for (const x of xs) body\<close>, the body updating the state \<open>s\<close>\<close>
  "forOf [] body s = Inr s"
| "forOf (x # xs) body s = (case body x s of Inl e \<Rightarrow> Inl e | Inr s' \<Rightarrow> forOf xs body s')"

fun mapE :: "('a \<Rightarrow> exn + 'b) \<Rightarrow> 'a list \<Rightarrow> exn + 'b list" where
  \<comment> \<open>\<open>xs.map(f)\<close> with a callback that may throw\<close>
  "mapE f [] = Inr []"
| "mapE f (x # xs) =
     (case f x of Inl e \<Rightarrow> Inl e
      | Inr y \<Rightarrow> (case mapE f xs of Inl e \<Rightarrow> Inl e | Inr ys \<Rightarrow> Inr (y # ys)))"

definition parseJSON :: "engine \<Rightarrow> string \<Rightarrow> exn + json" where
  \<comment> \<open>\<open>JSON.parse(text)\<close>\<close>
  "parseJSON E text = (case JSON_parse E text of Inl m \<Rightarrow> Inl (SyntaxError m) | Inr v \<Rightarrow> Inr v)"

fun truthy :: "jsval \<Rightarrow> bool" where
  "truthy None = False"
| "truthy (Some JNull) = False"
| "truthy (Some (JBool b)) = b"
| "truthy (Some (JNum r)) = (r \<noteq> 0)"
| "truthy (Some (JStr s)) = (s \<noteq> [])"
| "truthy (Some (JArr xs)) = True"
| "truthy (Some (JObj kvs)) = True"

definition js_or :: "jsval \<Rightarrow> jsval \<Rightarrow> jsval" where
  \<comment> \<open>\<open>a || b\<close>\<close>
  "js_or a b = (if truthy a then a else b)"

definition or_default :: "jsval \<Rightarrow> json \<Rightarrow> json" where
  \<comment> \<open>\<open>a || b\<close> with a right operand that is never \<open>undefined\<close>\<close>
  "or_default a b = (case a of None \<Rightarrow> b | Some v \<Rightarrow> if truthy (Some v) then v else b)"

definition nullish :: "jsval \<Rightarrow> bool" where
  \<comment> \<open>the values at which \<open>?.\<close> short-circuits\<close>
  "nullish v = (v = None \<or> v = Some JNull)"

text \<open>Member access \<open>v.k\<close>, for the property names that the normalizers read. None of them
  is a built-in property of strings, numbers, booleans or arrays, so on those the result
  is \<open>undefined\<close>; on \<open>null\<close> and \<open>undefined\<close> the access throws.\<close>

definition get :: "jsval \<Rightarrow> string \<Rightarrow> exn + jsval" where
  "get v k =
     (case v of
        None \<Rightarrow> Inl (TypeError (''Cannot read properties of undefined (reading '' @ k @ '')''))
      | Some JNull \<Rightarrow> Inl (TypeError (''Cannot read properties of null (reading '' @ k @ '')''))
      | Some (JObj kvs) \<Rightarrow> Inr (map_of kvs k)
      | Some _ \<Rightarrow> Inr None)"

definition is_cont :: "char \<Rightarrow> bool" where
  \<comment> \<open>a UTF-8 continuation byte\<close>
  "is_cont c = ((of_char c :: nat) div 64 = 2)"

function code_points :: "string \<Rightarrow> string list" where
  "code_points [] = []"
| "code_points (c # cs) = (c # takeWhile is_cont cs) # code_points (dropWhile is_cont cs)"
  by pat_completeness auto
termination
  by (relation "measure length") (auto simp: length_dropWhile_le less_Suc_eq_le)

text \<open>The values a \<open>for ... of\<close> loop runs over: the elements of an array, the code points
  of a string; anything else is not iterable.\<close>

definition iterate :: "jsval \<Rightarrow> exn + json list" where
  "iterate v =
     (case v of
        Some (JArr xs) \<Rightarrow> Inr xs
      | Some (JStr s) \<Rightarrow> Inr (map JStr (code_points s))
      | _ \<Rightarrow> Inl (TypeError ''is not iterable''))"

text \<open>\<open>ToString\<close>, as a template literal and \<open>join\<close> apply it. An array is its elements
  joined by commas, with \<open>null\<close> elements empty.\<close>

fun str_of :: "engine \<Rightarrow> json \<Rightarrow> string" where
  "str_of E JNull = ''null''"
| "str_of E (JBool b) = (if b then ''true'' else ''false'')"
| "str_of E (JNum r) = Number_toString E r"
| "str_of E (JStr s) = s"
| "str_of E (JArr xs) = join '','' (map (\<lambda>x. if x = JNull then [] else str_of E x) xs)"
| "str_of E (JObj kvs) = ''[object Object]''"

definition toString :: "engine \<Rightarrow> jsval \<Rightarrow> string" where
  "toString E v = (case v of None \<Rightarrow> ''undefined'' | Some x \<Rightarrow> str_of E x)"

definition array_join :: "engine \<Rightarrow> string \<Rightarrow> json list \<Rightarrow> string" where
  \<comment> \<open>\<open>xs.join(sep)\<close>\<close>
  "array_join E sep xs = join sep (map (\<lambda>x. if x = JNull then [] else str_of E x) xs)"

definition non_empty :: "string \<Rightarrow> string option" where
  \<comment> \<open>\<open>s || undefined\<close> for a string \<open>s\<close>\<close>
  "non_empty s = (if s = [] then None else Some s)"

section \<open>TestResult\<close>

text \<open>
  \<^verbatim>\<open>
  export interface TestResult {
    testId: string;
    passed: boolean;
    error?: string;
    duration: number;
  }
  \<close>
  The normalizers build these objects from values of type \<open>any\<close>, and nothing checks that
  an identifier is a string or a duration a number. The record is therefore polymorphic in
  those two fields: \<open>dyn_result\<close> is what the normalizers build at run time, \<open>test_result\<close>
  is the declared interface, on which aggregation and rendering work.
\<close>

record ('i, 'd) TestResult =
  testId :: 'i
  passed :: bool
  error :: "string option"
  duration :: 'd

type_synonym dyn_result = "(jsval, json) TestResult"
type_synonym test_result = "(string, rat) TestResult"

definition as_TestResult :: "dyn_result \<Rightarrow> test_result option" where
  \<comment> \<open>a run-time result that has the declared type\<close>
  "as_TestResult r =
     (case testId r of
        Some (JStr s) \<Rightarrow>
          (case duration r of
             JNum d \<Rightarrow> Some \<lparr>testId = s, passed = passed r, error = error r, duration = d\<rparr>
           | _ \<Rightarrow> None)
      | _ \<Rightarrow> None)"

definition as_TestResults :: "dyn_result list \<Rightarrow> test_result list option" where
  "as_TestResults rs = those (map as_TestResult rs)"

section \<open>JestTestRunner.parseJestResults\<close>

text \<open>
  \<^verbatim>\<open>
  private parseJestResults(jestResults: any): TestResult[] {
    const results: TestResult[] = [];
    for (const testResult of jestResults.testResults) {
      for (const assertionResult of testResult.assertionResults) {
        results.push({
          testId: assertionResult.fullName || assertionResult.title,
          passed: assertionResult.status === 'passed',
          error: assertionResult.failureMessages?.join('\n') || undefined,
          duration: assertionResult.duration || 0,
        });
      }
    }
    return results;
  }
  \<close>
\<close>

definition jest_entry :: "engine \<Rightarrow> json \<Rightarrow> exn + dyn_result" where
  \<comment> \<open>the object pushed for one \<open>assertionResult\<close>\<close>
  "jest_entry E assertionResult =
     andThen (get (Some assertionResult) ''fullName'') (\<lambda>fullName.
     andThen (if truthy fullName then Inr fullName else get (Some assertionResult) ''title'') (\<lambda>ident.
     andThen (get (Some assertionResult) ''status'') (\<lambda>status.
     andThen (get (Some assertionResult) ''failureMessages'') (\<lambda>failureMessages.
     andThen (if nullish failureMessages then Inr None
              else (case failureMessages of
                      Some (JArr ms) \<Rightarrow> Inr (Some (array_join E ''\<newline>'' ms))
                    | _ \<Rightarrow> Inl (TypeError ''assertionResult.failureMessages.join is not a function'')))
       (\<lambda>joined.
     andThen (get (Some assertionResult) ''duration'') (\<lambda>d.
     Inr \<lparr>testId = ident,
          passed = (status = Some (JStr ''passed'')),
          error = (case joined of None \<Rightarrow> None | Some s \<Rightarrow> non_empty s),
          duration = or_default d (JNum 0)\<rparr>))))))"

definition parseJestResults :: "engine \<Rightarrow> json \<Rightarrow> exn + dyn_result list" where
  "parseJestResults E jestResults =
     andThen (get (Some jestResults) ''testResults'') (\<lambda>trs.
     andThen (iterate trs) (\<lambda>testResults.
     forOf testResults (\<lambda>testResult results.
       andThen (get (Some testResult) ''assertionResults'') (\<lambda>ars.
       andThen (iterate ars) (\<lambda>assertionResults.
       forOf assertionResults (\<lambda>assertionResult results.
         andThen (jest_entry E assertionResult) (\<lambda>r. Inr (results @ [r]))) results))) []))"

section \<open>PlaywrightTestRunner.parsePlaywrightResults\<close>

text \<open>
  \<^verbatim>\<open>
  private parsePlaywrightResults(pwResults: any): TestResult[] {
    const results: TestResult[] = [];
    for (const suite of pwResults.suites || []) {
      this.extractPlaywrightTestResults(suite, results);
    }
    return results;
  }

  private extractPlaywrightTestResults(suite: any, results: TestResult[]): void {
    for (const spec of suite.specs || []) {
      for (const test of spec.tests || []) {
        results.push({
          testId: `${suite.title} SEP ${spec.title}`,
          passed: test.status === 'passed' || test.status === 'expected',
          error: test.errors?.map((e: any) => e.message || JSON.stringify(e)).join('\n') || undefined,
          duration: test.duration || 0,
        });
      }
    }
    for (const childSuite of suite.suites || []) {
      this.extractPlaywrightTestResults(childSuite, results);
    }
  }
  \<close>
  where \<open>SEP\<close> stands for the seven bytes \<open>C3 A2 E2 82 AC C2 BA\<close> that the source file has
  between the two spaces of the template literal.
\<close>

definition separator :: string where
  "separator = '' '' @ [CHR 0xC3, CHR 0xA2, CHR 0xE2, CHR 0x82, CHR 0xAC, CHR 0xC2, CHR 0xBA] @ '' ''"

definition error_text :: "engine \<Rightarrow> json \<Rightarrow> exn + json" where
  \<comment> \<open>\<open>(e: any) => e.message || JSON.stringify(e)\<close>\<close>
  "error_text E e =
     andThen (get (Some e) ''message'') (\<lambda>m. Inr (or_default m (JStr (JSON_stringify E e))))"

definition pw_entry :: "engine \<Rightarrow> json \<Rightarrow> json \<Rightarrow> json \<Rightarrow> exn + dyn_result" where
  \<comment> \<open>the object pushed for one \<open>test\<close> of \<open>spec\<close> in \<open>suite\<close>\<close>
  "pw_entry E suite spec test =
     andThen (get (Some suite) ''title'') (\<lambda>suiteTitle.
     andThen (get (Some spec) ''title'') (\<lambda>specTitle.
     andThen (get (Some test) ''status'') (\<lambda>status.
     andThen (get (Some test) ''errors'') (\<lambda>errors.
     andThen (if nullish errors then Inr None
              else (case errors of
                      Some (JArr es) \<Rightarrow>
                        andThen (mapE (error_text E) es) (\<lambda>ms.
                        Inr (Some (array_join E ''\<newline>'' ms)))
                    | _ \<Rightarrow> Inl (TypeError ''test.errors.map is not a function'')))
       (\<lambda>joined.
     andThen (get (Some test) ''duration'') (\<lambda>d.
     Inr \<lparr>testId = Some (JStr (toString E suiteTitle @ separator @ toString E specTitle)),
          passed = (status = Some (JStr ''passed'') \<or> status = Some (JStr ''expected'')),
          error = (case joined of None \<Rightarrow> None | Some s \<Rightarrow> non_empty s),
          duration = or_default d (JNum 0)\<rparr>))))))"

definition spec_loop :: "engine \<Rightarrow> json \<Rightarrow> json \<Rightarrow> dyn_result list \<Rightarrow> exn + dyn_result list" where
  \<comment> \<open>the body of the loop over \<open>suite.specs || []\<close>\<close>
  "spec_loop E suite spec results =
     andThen (get (Some spec) ''tests'') (\<lambda>tests.
     andThen (iterate (js_or tests (Some (JArr [])))) (\<lambda>testList.
     forOf testList (\<lambda>test results.
       andThen (pw_entry E suite spec test) (\<lambda>r. Inr (results @ [r]))) results))"

text \<open>The recursion follows the values under \<open>suites\<close>. It ends because a child is either
  an element of an array held by the suite object, or a one-code-point string, which has
  no properties.\<close>

lemma andThen_cong [fundef_cong]:
  "m = m' \<Longrightarrow> (\<And>x. m' = Inr x \<Longrightarrow> f x = g x) \<Longrightarrow> andThen m f = andThen m' g"
  by (auto simp: andThen_def split: sum.splits)

lemma forOf_cong [fundef_cong]:
  "xs = ys \<Longrightarrow> s = t \<Longrightarrow> (\<And>x s. x \<in> set ys \<Longrightarrow> f x s = g x s)
   \<Longrightarrow> forOf xs f s = forOf ys g t"
proof (induction xs arbitrary: ys s t)
  case Nil
  then show ?case by simp
next
  case (Cons a xs)
  then show ?case by (auto split: sum.splits)
qed

definition weight :: "json \<Rightarrow> nat" where
  "weight j = (case j of JStr s \<Rightarrow> 0 | _ \<Rightarrow> Suc (size j))"

lemma size_map_of: "map_of kvs k = Some v \<Longrightarrow> size v < size (JObj kvs)"
proof -
  assume "map_of kvs k = Some v"
  then have "(k, v) \<in> set kvs" by (rule map_of_SomeD)
  then have "size_prod (\<lambda>_. 0) size (k, v) \<le> size_list (size_prod (\<lambda>_. 0) size) kvs"
    by (rule size_list_estimation') simp
  then show ?thesis by simp
qed

lemma size_elem: "x \<in> set xs \<Longrightarrow> size x < size (JArr xs)"
  using size_list_estimation'[of x xs "size x" size] by simp

lemma child_weight:
  assumes "get (Some suite) k = Inr v"
    and "iterate (js_or v (Some (JArr []))) = Inr kids"
    and "x \<in> set kids"
  shows "weight x < weight suite"
proof (cases suite)
  case (JObj kvs)
  with assms(1) have v: "v = map_of kvs k" by (simp add: get_def)
  show ?thesis
  proof (cases "truthy v")
    case False
    with assms(2,3) show ?thesis by (simp add: js_or_def iterate_def)
  next
    case True
    with assms(2) have it: "iterate v = Inr kids" by (simp add: js_or_def)
    then show ?thesis
    proof (cases v)
      case None
      with it show ?thesis by (simp add: iterate_def)
    next
      case (Some w)
      show ?thesis
      proof (cases w)
        case (JArr xs)
        with it Some assms(3) have "x \<in> set xs" by (simp add: iterate_def)
        then have "size x < size w" using size_elem[of x xs] JArr by simp
        moreover have "size w < size suite" using v Some JObj size_map_of[of kvs k w] by simp
        moreover have "weight x \<le> Suc (size x)" by (simp add: weight_def split: json.splits)
        moreover have "weight suite = Suc (size suite)" using JObj by (simp add: weight_def)
        ultimately show ?thesis by linarith
      next
        case (JStr s)
        with it Some assms(3) obtain c where "x = JStr c" by (auto simp: iterate_def)
        then show ?thesis using JObj by (simp add: weight_def)
      qed (use it Some in \<open>simp_all add: iterate_def\<close>)
    qed
  qed
qed (use assms in \<open>auto simp: get_def js_or_def iterate_def\<close>)

function extractPlaywrightTestResults ::
  "engine \<Rightarrow> json \<Rightarrow> dyn_result list \<Rightarrow> exn + dyn_result list" where
  "extractPlaywrightTestResults E suite results =
     andThen (get (Some suite) ''specs'') (\<lambda>specs.
     andThen (iterate (js_or specs (Some (JArr [])))) (\<lambda>specList.
     andThen (forOf specList (spec_loop E suite) results) (\<lambda>results.
     andThen (get (Some suite) ''suites'') (\<lambda>suites.
     andThen (iterate (js_or suites (Some (JArr [])))) (\<lambda>childSuites.
     forOf childSuites (\<lambda>childSuite results.
       extractPlaywrightTestResults E childSuite results) results)))))"
  by pat_completeness auto
termination
  by (relation "measure (\<lambda>(E, suite, results). weight suite)") (auto intro: child_weight)

declare extractPlaywrightTestResults.simps [simp del]

definition parsePlaywrightResults :: "engine \<Rightarrow> json \<Rightarrow> exn + dyn_result list" where
  "parsePlaywrightResults E pwResults =
     andThen (get (Some pwResults) ''suites'') (\<lambda>suites.
     andThen (iterate (js_or suites (Some (JArr [])))) (\<lambda>suiteList.
     forOf suiteList (\<lambda>suite results. extractPlaywrightTestResults E suite results) []))"

section \<open>runTests\<close>

text \<open>
  The outcome of \<open>await execPromise(command, ...)\<close> is an input of the model: the promise
  resolves with the captured \<open>stdout\<close> and \<open>stderr\<close> when the process exits with code 0,
  and rejects otherwise, with an error that has a message and may carry the captured
  \<open>stdout\<close>. The command line only reaches the external process, and the logger calls only
  write to the log; neither is modelled.
\<close>

datatype exec_result =
    Resolved string string
  | Rejected string "string option"

definition executionError :: "string \<Rightarrow> dyn_result" where
  \<comment> \<open>the result that both \<open>catch\<close> clauses return\<close>
  "executionError msg =
     \<lparr>testId = Some (JStr ''test-execution-error''), passed = False,
      error = Some msg, duration = JNum 0\<rparr>"

text \<open>
  \<^verbatim>\<open>
    try {
      const { stdout, stderr } = await execPromise(`npx jest ${testPath} ${jestOptions}`, ...);
      ...
      try {
        const jestResults = JSON.parse(stdout);
        return this.parseJestResults(jestResults);
      } catch (error) {
        logger.error('Error parsing Jest results', { error, stdout });
        throw new Error(`Failed to parse Jest results: ${(error as Error).message}`);
      }
    } catch (error) {
      logger.error(`Error running tests at ${testPath}`, { error });
      // If Jest failed to run but returned structured output, try to parse it
      if ((error as any).stdout) {
        try {
          const jestResults = JSON.parse((error as any).stdout);
          return this.parseJestResults(jestResults);
        } catch (parseError) {
          // If parsing fails, just return the error message
          logger.error('Error parsing Jest failure results', { parseError });
        }
      }
      // Return a failed test result
      return [{ testId: 'test-execution-error', passed: false,
                error: (error as Error).message, duration: 0 }];
    }
  \<close>
  \<open>Inl\<close> is a rejected promise, \<open>Inr\<close> a fulfilled one; the caught \<open>error\<close> is \<open>err\<close>.
\<close>

definition jest_recover :: "engine \<Rightarrow> exn \<Rightarrow> dyn_result list option" where
  \<comment> \<open>the \<open>if ((error as any).stdout)\<close> block of the outer handler: \<open>Some\<close> when it returns\<close>
  "jest_recover E err =
     (case exn_stdout err of
        None \<Rightarrow> None
      | Some out \<Rightarrow>
          if out = [] then None
          else (case andThen (parseJSON E out) (parseJestResults E) of
                  Inr results \<Rightarrow> Some results
                | Inl parseError \<Rightarrow> None))"

definition JestTestRunner_runTests :: "engine \<Rightarrow> exec_result \<Rightarrow> exn + dyn_result list" where
  "JestTestRunner_runTests E outcome =
     tryCatch
       (case outcome of
          Rejected msg out \<Rightarrow> Inl (ExecError msg out)
        | Resolved stdout stderr \<Rightarrow>
            tryCatch (andThen (parseJSON E stdout) (parseJestResults E))
              (\<lambda>err. Inl (PlainError (''Failed to parse Jest results: '' @ message err))))
       (\<lambda>err.
          case jest_recover E err of
            Some results \<Rightarrow> Inr results
          | None \<Rightarrow> Inr [executionError (message err)])"

text \<open>
  \<^verbatim>\<open>
    try {
      const { stdout, stderr } = await execPromise(`npx playwright test ${testPath} ${pwOptions}`, ...);
      ...
      try {
        const pwResults = JSON.parse(stdout);
        return this.parsePlaywrightResults(pwResults);
      } catch (error) {
        logger.error('Error parsing Playwright results', { error, stdout });
        throw new Error(`Failed to parse Playwright results: ${(error as Error).message}`);
      }
    } catch (error) {
      logger.error(`Error running Playwright tests at ${testPath}`, { error });
      // Return a failed test result
      return [{ testId: 'test-execution-error', passed: false,
                error: (error as Error).message, duration: 0 }];
    }
  \<close>
\<close>

definition PlaywrightTestRunner_runTests :: "engine \<Rightarrow> exec_result \<Rightarrow> exn + dyn_result list" where
  "PlaywrightTestRunner_runTests E outcome =
     tryCatch
       (case outcome of
          Rejected msg out \<Rightarrow> Inl (ExecError msg out)
        | Resolved stdout stderr \<Rightarrow>
            tryCatch (andThen (parseJSON E stdout) (parsePlaywrightResults E))
              (\<lambda>err. Inl (PlainError (''Failed to parse Playwright results: '' @ message err))))
       (\<lambda>err. Inr [executionError (message err)])"

section \<open>analyzeResults\<close>

text \<open>
  \<^verbatim>\<open>
  async analyzeResults(results: TestResult[]): Promise<any> {
    const passed = results.filter(r => r.passed);
    const failed = results.filter(r => !r.passed);
    const totalDuration = results.reduce((acc, r) => acc + r.duration, 0);
    return {
      summary: {
        total: results.length,
        passed: passed.length,
        failed: failed.length,
        passRate: results.length ? (passed.length / results.length) * 100 : 0,
        totalDuration,
      },
      failedTests: failed.map(f => ({ testId: f.testId, error: f.error })),
    };
  }
  \<close>
  The method has the same text in both runner classes. The two lengths are converted to
  numbers exactly; the quotient, the product and each addition of the fold are the
  engine's operations on doubles. \<open>double_sum\<close> is the sum as \<open>reduce\<close> computes it: from 0,
  left to right, rounding after each addition.
\<close>

definition double_sum :: "engine \<Rightarrow> rat list \<Rightarrow> rat" where
  "double_sum E xs = foldl (num_add E) 0 xs"

record Summary =
  total :: nat
  passed_count :: nat
  failed_count :: nat
  passRate :: rat
  totalDuration :: rat

record 'i FailedTest =
  failed_testId :: 'i
  failed_error :: "string option"

record 'i Analysis =
  summary :: Summary
  failedTests :: "'i FailedTest list"

definition analyzeResults :: "engine \<Rightarrow> ('i, rat) TestResult list \<Rightarrow> 'i Analysis" where
  "analyzeResults E results =
     (let passedL = filter (\<lambda>r. passed r) results;
          failedL = filter (\<lambda>r. \<not> passed r) results;
          totalDur = foldl (\<lambda>acc r. num_add E acc (duration r)) 0 results
      in \<lparr>summary =
            \<lparr>total = length results,
             passed_count = length passedL,
             failed_count = length failedL,
             passRate = (if length results \<noteq> 0
                         then num_mul E
                                (num_div E (of_nat (length passedL)) (of_nat (length results)))
                                100
                         else 0),
             totalDuration = totalDur\<rparr>,
          failedTests = map (\<lambda>f. \<lparr>failed_testId = testId f, failed_error = error f\<rparr>) failedL\<rparr>)"

section \<open>TestReporter\<close>

definition str_or :: "string option \<Rightarrow> string \<Rightarrow> string" where
  \<comment> \<open>\<open>s || d\<close> for an optional string \<open>s\<close>\<close>
  "str_or s d = (case s of None \<Rightarrow> d | Some x \<Rightarrow> if x = [] then d else x)"

text \<open>
  \<^verbatim>\<open>
    for (const result of results) {
      const testTime = (result.duration / 1000).toFixed(2);
      xml += `    <testcase name="${this.escapeXml(result.testId)}" time="${testTime}"`;
      if (!result.passed) {
        xml += '>\n';
        xml += `      <failure message="${this.escapeXml(result.error || 'Test failed')}">${
                 this.escapeXml(result.error || '')}</failure>\n`;
        xml += '    </testcase>\n';
      } else {
        xml += '/>\n';
      }
    }
  \<close>
\<close>

definition failure_element :: "test_result \<Rightarrow> string" where
  \<open>failure_element result =
     ''      <failure message="'' @ escapeXml (str_or (error result) ''Test failed'') @ ''">''
       @ escapeXml (str_or (error result) []) @ ''</failure>\<newline>''\<close>

definition testcase_step :: "engine \<Rightarrow> string \<Rightarrow> test_result \<Rightarrow> string" where
  \<comment> \<open>the body of the loop: the document so far, extended by one result\<close>
  \<open>testcase_step E xml result =
     (let testTime = seconds_toFixed2 E (duration result);
          xml = xml @ ''    <testcase name="'' @ escapeXml (testId result)
                    @ ''" time="'' @ testTime @ ''"''
      in if \<not> passed result
         then xml @ ''>\<newline>'' @ failure_element result @ ''    </testcase>\<newline>''
         else xml @ ''/>\<newline>'')\<close>

text \<open>
  \<^verbatim>\<open>
  private generateXmlReport(results: TestResult[], analysis: any): string {
    const timestamp = new Date().toISOString();
    const totalTime = (analysis.summary.totalDuration / 1000).toFixed(2);
    let xml = '<?xml version="1.0" encoding="UTF-8"?>\n';
    xml += `<testsuites name="AI Testing Agent Results" time="${totalTime}" tests="${
      analysis.summary.total}" failures="${analysis.summary.failed}" timestamp="${timestamp}">\n`;
    xml += `  <testsuite name="TestSuite" tests="${analysis.summary.total}" failures="${
      analysis.summary.failed}" time="${totalTime}">\n`;
    for (const result of results) { ... }
    xml += '  </testsuite>\n';
    xml += '</testsuites>';
    return xml;
  }
  \<close>
  The reading of the clock is the argument \<open>timestamp\<close>; \<open>analysis\<close> is what
  \<open>analyzeResults\<close> returns.
\<close>

definition xml_header :: "engine \<Rightarrow> string \<Rightarrow> 'i Analysis \<Rightarrow> string" where
  \<open>xml_header E timestamp analysis =
     (let totalTime = seconds_toFixed2 E (totalDuration (summary analysis));
          tests = Number_toString E (of_nat (total (summary analysis)));
          failures = Number_toString E (of_nat (failed_count (summary analysis)))
      in ''<?xml version="1.0" encoding="UTF-8"?>\<newline>''
         @ ''<testsuites name="AI Testing Agent Results" time="'' @ totalTime
         @ ''" tests="'' @ tests @ ''" failures="'' @ failures
         @ ''" timestamp="'' @ timestamp @ ''">\<newline>''
         @ ''  <testsuite name="TestSuite" tests="'' @ tests @ ''" failures="'' @ failures
         @ ''" time="'' @ totalTime @ ''">\<newline>'')\<close>

definition generateXmlReport ::
  "engine \<Rightarrow> string \<Rightarrow> test_result list \<Rightarrow> 'i Analysis \<Rightarrow> string" where
  \<open>generateXmlReport E timestamp results analysis =
     (let xml = xml_header E timestamp analysis;
          xml = foldl (testcase_step E) xml results;
          xml = xml @ ''  </testsuite>\<newline>'';
          xml = xml @ ''</testsuites>''
      in xml)\<close>

text \<open>
  \<^verbatim>\<open>
  private generateJsonReport(results: TestResult[], analysis: any): string {
    const report = {
      timestamp: new Date().toISOString(),
      summary: analysis.summary,
      tests: results.map(result => ({
        id: result.testId,
        status: result.passed ? 'passed' : 'failed',
        duration: result.duration,
        error: result.error || null,
      })),
      failures: analysis.failedTests || [],
    };
    return JSON.stringify(report, null, 2);
  }
  \<close>
  \<open>JSON.stringify\<close> leaves out a property whose value is \<open>undefined\<close>, so a failed test
  without error text has no \<open>error\<close> entry.
\<close>

definition summary_json :: "Summary \<Rightarrow> json" where
  "summary_json s =
     JObj [(''total'', JNum (of_nat (total s))),
           (''passed'', JNum (of_nat (passed_count s))),
           (''failed'', JNum (of_nat (failed_count s))),
           (''passRate'', JNum (passRate s)),
           (''totalDuration'', JNum (totalDuration s))]"

definition test_json :: "test_result \<Rightarrow> json" where
  "test_json result =
     JObj [(''id'', JStr (testId result)),
           (''status'', JStr (if passed result then ''passed'' else ''failed'')),
           (''duration'', JNum (duration result)),
           (''error'', (case error result of
                          None \<Rightarrow> JNull
                        | Some e \<Rightarrow> if e = [] then JNull else JStr e))]"

definition failure_json :: "string FailedTest \<Rightarrow> json" where
  "failure_json f =
     JObj ((''testId'', JStr (failed_testId f))
           # (case failed_error f of None \<Rightarrow> [] | Some e \<Rightarrow> [(''error'', JStr e)]))"

definition generateJsonReport ::
  "engine \<Rightarrow> string \<Rightarrow> test_result list \<Rightarrow> string Analysis \<Rightarrow> string" where
  "generateJsonReport E timestamp results analysis =
     JSON_stringify_indent2 E
       (JObj [(''timestamp'', JStr timestamp),
              (''summary'', summary_json (summary analysis)),
              (''tests'', JArr (map test_json results)),
              (''failures'', JArr (map failure_json (failedTests analysis)))])"

text \<open>
  \<^verbatim>\<open>
  async generateReport(results: TestResult[], analysis: any, options: ReportOptions): Promise<string> {
    const { format, outputPath, filename, includeTimestamp = true } = options;
    // Create output directory if it doesn't exist
    await fs.mkdir(outputPath, { recursive: true });
    // Generate filename if not provided
    const timestamp = includeTimestamp ? `-${new Date().toISOString().replace(/:/g, '-')}` : '';
    const reportFilename = filename || `test-report${timestamp}.${format}`;
    const filePath = path.join(outputPath, reportFilename);
    // Generate report content based on format
    let content: string;
    if (format === ReportFormat.JSON) {
      content = this.generateJsonReport(results, analysis);
    } else if (format === ReportFormat.XML) {
      content = this.generateXmlReport(results, analysis);
    } else {
      throw new Error(`Unsupported report format: ${format}`);
    }
    // Write to file
    await fs.writeFile(filePath, content, 'utf-8');
    logger.info(`Test report generated at ${filePath}`);
    return filePath;
  }
  \<close>
  \<open>ReportFormat\<close> is an enum of the strings \<open>'json'\<close> and \<open>'xml'\<close>; at run time a format is
  a string. The file system is a state \<open>'fs\<close> with the two operations the method awaits,
  each returning the new state and, when it rejects, the message of its error;
  \<open>path.join\<close> comes with them. The two readings of the clock are \<open>t1\<close> (file name) and
  \<open>t2\<close> (document).
\<close>

record ReportOptions =
  format :: string
  outputPath :: string
  filename :: "string option"
  includeTimestamp :: "bool option"

record 'fs node_fs =
  mkdir :: "string \<Rightarrow> 'fs \<Rightarrow> string option \<times> 'fs"
  writeFile :: "string \<Rightarrow> string \<Rightarrow> 'fs \<Rightarrow> string option \<times> 'fs"
  path_join :: "string \<Rightarrow> string \<Rightarrow> string"

definition report_content ::
  "engine \<Rightarrow> string \<Rightarrow> test_result list \<Rightarrow> string Analysis \<Rightarrow> string \<Rightarrow> exn + string" where
  \<comment> \<open>the \<open>if ... else if ... else throw\<close> that chooses the renderer\<close>
  "report_content E t2 results analysis fmt =
     (if fmt = ''json'' then Inr (generateJsonReport E t2 results analysis)
      else if fmt = ''xml'' then Inr (generateXmlReport E t2 results analysis)
      else Inl (PlainError (''Unsupported report format: '' @ fmt)))"

definition generateReport ::
  "engine \<Rightarrow> 'fs node_fs \<Rightarrow> string \<Rightarrow> string \<Rightarrow> test_result list \<Rightarrow> string Analysis
   \<Rightarrow> ReportOptions \<Rightarrow> 'fs \<Rightarrow> (exn + string) \<times> 'fs" where
  "generateReport E ops t1 t2 results analysis options fs0 =
     (case mkdir ops (outputPath options) fs0 of
        (Some m, fs1) \<Rightarrow> (Inl (PlainError m), fs1)
      | (None, fs1) \<Rightarrow>
          (let timestamp = (if (case includeTimestamp options of None \<Rightarrow> True | Some b \<Rightarrow> b)
                            then ''-'' @ replaceAll CHR '':'' ''-'' t1 else []);
               reportFilename = str_or (filename options)
                                  (''test-report'' @ timestamp @ ''.'' @ format options);
               filePath = path_join ops (outputPath options) reportFilename
           in case report_content E t2 results analysis (format options) of
                Inl e \<Rightarrow> (Inl e, fs1)
              | Inr content \<Rightarrow>
                  (case writeFile ops filePath content fs1 of
                     (Some m, fs2) \<Rightarrow> (Inl (PlainError m), fs2)
                   | (None, fs2) \<Rightarrow> (Inr filePath, fs2))))"

section \<open>The runner documents and what normalization should yield\<close>

text \<open>
  The two shapes of runner output are described by predicates on the parsed value, and the
  result that the specification asks for is given by functions that read a document
  without any failure case. A property may be absent (\<open>undefined\<close>); where the code only
  tests a value for truth, \<open>null\<close> counts as absent too. Properties other than the ones
  named here may be present and are ignored.
\<close>

definition field :: "json \<Rightarrow> string \<Rightarrow> jsval" where
  "field j k = (case j of JObj kvs \<Rightarrow> map_of kvs k | _ \<Rightarrow> None)"

definition str_field :: "json \<Rightarrow> string \<Rightarrow> string option" where
  "str_field j k = (case field j k of Some (JStr s) \<Rightarrow> Some s | _ \<Rightarrow> None)"

definition num_field :: "json \<Rightarrow> string \<Rightarrow> rat option" where
  "num_field j k = (case field j k of Some (JNum r) \<Rightarrow> Some r | _ \<Rightarrow> None)"

definition arr_field :: "json \<Rightarrow> string \<Rightarrow> json list" where
  "arr_field j k = (case field j k of Some (JArr xs) \<Rightarrow> xs | _ \<Rightarrow> [])"

definition title_of :: "json \<Rightarrow> string" where
  "title_of j = (case str_field j ''title'' of None \<Rightarrow> [] | Some t \<Rightarrow> t)"

fun is_obj :: "json \<Rightarrow> bool" where
  "is_obj (JObj kvs) = True"
| "is_obj _ = False"

fun is_str :: "json \<Rightarrow> bool" where
  "is_str (JStr s) = True"
| "is_str _ = False"

fun the_str :: "json \<Rightarrow> string" where
  "the_str (JStr s) = s"
| "the_str _ = []"

fun is_str_val :: "jsval \<Rightarrow> bool" where
  \<comment> \<open>a string that is present\<close>
  "is_str_val (Some (JStr s)) = True"
| "is_str_val _ = False"

fun str_or_undefined :: "jsval \<Rightarrow> bool" where
  "str_or_undefined None = True"
| "str_or_undefined (Some (JStr s)) = True"
| "str_or_undefined _ = False"

fun opt_str :: "jsval \<Rightarrow> bool" where
  \<comment> \<open>a string, \<open>null\<close> or absent\<close>
  "opt_str None = True"
| "opt_str (Some JNull) = True"
| "opt_str (Some (JStr s)) = True"
| "opt_str _ = False"

fun opt_num :: "jsval \<Rightarrow> bool" where
  \<comment> \<open>a number, \<open>null\<close> or absent\<close>
  "opt_num None = True"
| "opt_num (Some JNull) = True"
| "opt_num (Some (JNum r)) = True"
| "opt_num _ = False"

fun opt_arr :: "(json \<Rightarrow> bool) \<Rightarrow> jsval \<Rightarrow> bool" where
  \<comment> \<open>an array of values that satisfy \<open>P\<close>, \<open>null\<close> or absent\<close>
  "opt_arr P None = True"
| "opt_arr P (Some JNull) = True"
| "opt_arr P (Some (JArr xs)) = list_all P xs"
| "opt_arr P _ = False"

subsection \<open>Flat-suite documents (Jest)\<close>

definition jest_assertion :: "json \<Rightarrow> bool" where
  "jest_assertion a =
     (is_obj a \<and> opt_str (field a ''fullName'') \<and> str_or_undefined (field a ''title'')
      \<and> opt_arr is_str (field a ''failureMessages'') \<and> opt_num (field a ''duration''))"

definition jest_suite :: "json \<Rightarrow> bool" where
  "jest_suite s =
     (case field s ''assertionResults'' of
        Some (JArr as) \<Rightarrow> list_all jest_assertion as
      | _ \<Rightarrow> False)"

definition jest_document :: "json \<Rightarrow> bool" where
  "jest_document doc =
     (case field doc ''testResults'' of
        Some (JArr ss) \<Rightarrow> list_all jest_suite ss
      | _ \<Rightarrow> False)"

text \<open>Specification: the result for one assertion record. The identifier is the fully
  qualified name, the short title when there is no such name; the error text is the
  failure messages joined by newlines, absent when that text is empty; the duration is
  the reported one, 0 when none is reported.\<close>

definition spec_jest_result :: "json \<Rightarrow> dyn_result" where
  "spec_jest_result a =
     \<lparr>testId = map_option JStr
                 (case str_field a ''fullName'' of
                    None \<Rightarrow> str_field a ''title''
                  | Some n \<Rightarrow> if n = [] then str_field a ''title'' else Some n),
      passed = (str_field a ''status'' = Some ''passed''),
      error = non_empty (join ''\<newline>'' (map the_str (arr_field a ''failureMessages''))),
      duration = JNum (case num_field a ''duration'' of None \<Rightarrow> 0 | Some d \<Rightarrow> d)\<rparr>"

definition jest_assertions :: "json \<Rightarrow> json list" where
  \<comment> \<open>every assertion record of every suite record, in document order\<close>
  "jest_assertions doc =
     concat (map (\<lambda>s. arr_field s ''assertionResults'') (arr_field doc ''testResults''))"

subsection \<open>Nested-suite documents (Playwright)\<close>

definition pw_error :: "json \<Rightarrow> bool" where
  "pw_error e = (e \<noteq> JNull \<and> opt_str (field e ''message''))"

definition pw_test :: "json \<Rightarrow> bool" where
  "pw_test t =
     (is_obj t \<and> opt_arr pw_error (field t ''errors'') \<and> opt_num (field t ''duration''))"

definition pw_spec :: "json \<Rightarrow> bool" where
  "pw_spec sp =
     (is_obj sp \<and> is_str_val (field sp ''title'') \<and> opt_arr pw_test (field sp ''tests''))"

lemma arr_field_size: "x \<in> set (arr_field s k) \<Longrightarrow> size x < size s"
proof (cases s)
  case (JObj kvs)
  assume x: "x \<in> set (arr_field s k)"
  with JObj obtain xs where f: "map_of kvs k = Some (JArr xs)" and mem: "x \<in> set xs"
    by (cases "map_of kvs k") (auto simp: arr_field_def field_def split: json.splits)
  from mem have "size x < size (JArr xs)" by (rule size_elem)
  moreover have "size (JArr xs) < size s" using f JObj size_map_of by blast
  ultimately show ?thesis by simp
qed (simp_all add: arr_field_def field_def)

function pw_suite :: "json \<Rightarrow> bool" where
  "pw_suite s =
     (is_obj s \<and> is_str_val (field s ''title'') \<and> opt_arr pw_spec (field s ''specs'')
      \<and> opt_arr (\<lambda>c. True) (field s ''suites'') \<and> list_all pw_suite (arr_field s ''suites''))"
  by pat_completeness auto
termination
  by (relation "measure size") (auto intro: arr_field_size)

declare pw_suite.simps [simp del]

definition pw_document :: "json \<Rightarrow> bool" where
  "pw_document doc = (is_obj doc \<and> opt_arr pw_suite (field doc ''suites''))"

text \<open>Specification: the text of one attached error is its message, the stringified error
  when it has none; the result for one test run of a spec carries the title of the suite
  that directly encloses the spec.\<close>

definition spec_error_text :: "engine \<Rightarrow> json \<Rightarrow> string" where
  "spec_error_text E e =
     (case str_field e ''message'' of
        None \<Rightarrow> JSON_stringify E e
      | Some m \<Rightarrow> if m = [] then JSON_stringify E e else m)"

definition spec_pw_result :: "engine \<Rightarrow> json \<Rightarrow> json \<Rightarrow> json \<Rightarrow> dyn_result" where
  "spec_pw_result E suite spec test =
     \<lparr>testId = Some (JStr (title_of suite @ separator @ title_of spec)),
      passed = (str_field test ''status'' = Some ''passed''
                \<or> str_field test ''status'' = Some ''expected''),
      error = non_empty (join ''\<newline>'' (map (spec_error_text E) (arr_field test ''errors''))),
      duration = JNum (case num_field test ''duration'' of None \<Rightarrow> 0 | Some d \<Rightarrow> d)\<rparr>"

definition spec_pw_own :: "engine \<Rightarrow> json \<Rightarrow> dyn_result list" where
  \<comment> \<open>the test runs of the suite's own specs, spec by spec\<close>
  "spec_pw_own E suite =
     concat (map (\<lambda>spec. map (spec_pw_result E suite spec) (arr_field spec ''tests''))
                 (arr_field suite ''specs''))"

function spec_pw_flatten :: "engine \<Rightarrow> json \<Rightarrow> dyn_result list" where
  \<comment> \<open>depth first: the suite's own results, then those of each child suite in turn\<close>
  "spec_pw_flatten E suite =
     spec_pw_own E suite @ concat (map (spec_pw_flatten E) (arr_field suite ''suites''))"
  by pat_completeness auto
termination
  by (relation "measure (\<lambda>(E, suite). size suite)") (auto intro: arr_field_size)

declare spec_pw_flatten.simps [simp del]

function pw_tests :: "json \<Rightarrow> (json \<times> json \<times> json) list" where
  \<comment> \<open>every test run below a suite, with its spec and the suite that holds the spec\<close>
  "pw_tests suite =
     concat (map (\<lambda>spec. map (\<lambda>test. (suite, spec, test)) (arr_field spec ''tests''))
                 (arr_field suite ''specs''))
     @ concat (map pw_tests (arr_field suite ''suites''))"
  by pat_completeness auto
termination
  by (relation "measure size") (auto intro: arr_field_size)

declare pw_tests.simps [simp del]

section \<open>Fixtures for evaluating examples\<close>

text \<open>An engine that parses three texts, stringifies every value as \<open>{}\<close>, prints the
  integer part of a non-negative number in decimal, renders every time as \<open>0.00\<close> and
  computes without rounding. It only serves to run the definitions on concrete inputs;
  on the numbers of the examples below (small integers and 1/2) doubles do not round
  either.\<close>

function show_nat :: "nat \<Rightarrow> string" where
  "show_nat n =
     (if n < 10 then [''0123456789'' ! n]
      else show_nat (n div 10) @ [''0123456789'' ! (n mod 10)])"
  by pat_completeness auto
termination
  by (relation "measure id") auto

declare show_nat.simps [simp del]

definition jest_example :: json where
  "jest_example =
     JObj [(''testResults'', JArr [
       JObj [(''assertionResults'', JArr [
         JObj [(''fullName'', JStr ''math adds''), (''title'', JStr ''adds''),
               (''status'', JStr ''passed''), (''failureMessages'', JArr []),
               (''duration'', JNum 10)],
         JObj [(''fullName'', JStr ''math divides''), (''title'', JStr ''divides''),
               (''status'', JStr ''failed''), (''failureMessages'', JArr [JStr ''boom'']),
               (''duration'', JNum 5)]])]])]"

definition pw_example :: json where
  "pw_example =
     JObj [(''suites'', JArr [
       JObj [(''title'', JStr ''A''), (''specs'', JArr []),
             (''suites'', JArr [
               JObj [(''title'', JStr ''B''),
                     (''specs'', JArr [
                       JObj [(''title'', JStr ''t1''),
                             (''tests'', JArr [JObj [(''status'', JStr ''expected'')]])]])]])]])]"

text \<open>A flat-suite document with two suites, and a nested-suite document whose root suite
  has a spec of its own and two child suites; one of its test runs failed.\<close>

definition jest_order_example :: json where
  "jest_order_example =
     JObj [(''testResults'', JArr [
       JObj [(''assertionResults'', JArr [
         JObj [(''fullName'', JStr ''a1''), (''status'', JStr ''passed'')],
         JObj [(''title'', JStr ''a2''), (''status'', JStr ''failed'')]])],
       JObj [(''assertionResults'', JArr [
         JObj [(''fullName'', JStr ''b1''), (''status'', JStr ''passed'')]])]])]"

definition pw_order_root :: json where
  "pw_order_root =
     JObj [(''title'', JStr ''R''),
           (''specs'', JArr [
             JObj [(''title'', JStr ''s0''),
                   (''tests'', JArr [JObj [(''status'', JStr ''passed''),
                                           (''duration'', JNum 3)]])]]),
           (''suites'', JArr [
             JObj [(''title'', JStr ''C1''),
                   (''specs'', JArr [
                     JObj [(''title'', JStr ''s1''),
                           (''tests'', JArr [
                             JObj [(''status'', JStr ''unexpected''),
                                   (''errors'', JArr [JObj [(''message'', JStr ''boom'')]])],
                             JObj [(''status'', JStr ''passed'')]])]])],
             JObj [(''title'', JStr ''C2''),
                   (''specs'', JArr [
                     JObj [(''title'', JStr ''s2''),
                           (''tests'', JArr [JObj [(''status'', JStr ''skipped'')]])]])]])]"

definition pw_order_example :: json where
  "pw_order_example = JObj [(''suites'', JArr [pw_order_root])]"

definition pw_order_results :: "dyn_result list" where
  "pw_order_results =
     [\<lparr>testId = Some (JStr (''R'' @ separator @ ''s0'')), passed = True, error = None,
       duration = JNum 3\<rparr>,
      \<lparr>testId = Some (JStr (''C1'' @ separator @ ''s1'')), passed = False,
       error = Some ''boom'', duration = JNum 0\<rparr>,
      \<lparr>testId = Some (JStr (''C1'' @ separator @ ''s1'')), passed = True, error = None,
       duration = JNum 0\<rparr>,
      \<lparr>testId = Some (JStr (''C2'' @ separator @ ''s2'')), passed = False, error = None,
       duration = JNum 0\<rparr>]"

definition example_engine :: engine where
  "example_engine =
     \<lparr>JSON_parse = (\<lambda>text. if text = ''JEST'' then Inr jest_example
                            else if text = ''PLAYWRIGHT'' then Inr pw_order_example
                            else if text = ''null'' then Inr JNull
                            else Inl ''Unexpected token''),
      JSON_stringify = (\<lambda>v. ''{}''),
      JSON_stringify_indent2 = (\<lambda>v. ''{}''),
      Number_toString = (\<lambda>r. show_nat (nat \<lfloor>r\<rfloor>)),
      seconds_toFixed2 = (\<lambda>ms. ''0.00''),
      num_add = (\<lambda>a b. a + b),
      num_div = (\<lambda>a b. a / b),
      num_mul = (\<lambda>a b. a * b)\<rparr>"

text \<open>A file system in memory: the directories that exist and the files with their
  content. \<open>mkdir\<close> adds the directory, \<open>writeFile\<close> replaces the file.\<close>

record mem_fs =
  dirs :: "string list"
  files :: "(string \<times> string) list"

definition mem_ops :: "mem_fs node_fs" where
  "mem_ops =
     \<lparr>mkdir = (\<lambda>p fs. (None, if p \<in> set (dirs fs) then fs else fs\<lparr>dirs := p # dirs fs\<rparr>)),
      writeFile = (\<lambda>p c fs. (None, fs\<lparr>files := (p, c) # filter (\<lambda>e. fst e \<noteq> p) (files fs)\<rparr>)),
      path_join = (\<lambda>a b. a @ ''/'' @ b)\<rparr>"

definition empty_fs :: mem_fs where
  "empty_fs = \<lparr>dirs = [], files = []\<rparr>"

definition failing_result :: test_result where
  \<comment> \<open>a failed test without error text\<close>
  "failing_result = \<lparr>testId = ''t'', passed = False, error = None, duration = 0\<rparr>"

definition html_options :: ReportOptions where
  "html_options =
     \<lparr>format = ''html'', outputPath = ''reports'', filename = None, includeTimestamp = None\<rparr>"

definition csv_options :: ReportOptions where
  "csv_options =
     \<lparr>format = ''csv'', outputPath = ''out'', filename = Some ''r.csv'',
      includeTimestamp = Some False\<rparr>"

section \<open>Aggregation\<close>

lemma example_engine_fields:
  "Number_toString example_engine r = show_nat (nat \<lfloor>r\<rfloor>)"
  "seconds_toFixed2 example_engine ms = ''0.00''"
  "num_add example_engine a b = a + b"
  "num_div example_engine a b = a / b"
  "num_mul example_engine a b = a * b"
  by (simp_all add: example_engine_def)

lemma show_nat_1: "show_nat (Suc 0) = ''1''"
  by (simp add: show_nat.simps)

text \<open>
  C6. For every sequence \<open>R\<close> of results, \<open>analyzeResults\<close> (a function of \<open>R\<close> and of the
  arithmetic of the engine alone) returns a summary with \<open>total\<close> the length of \<open>R\<close>,
  \<open>passed + failed = total\<close>, \<open>passRate\<close> the quotient of \<open>passed\<close> by \<open>total\<close> times 100 when
  \<open>R\<close> is not empty and \<open>0\<close> when it is, \<open>totalDuration\<close> the sum of the durations, and as
  \<open>failedTests\<close> the identifier and error of exactly the failed entries of \<open>R\<close>, in their
  order. Quotient, product and sum are those of the program's doubles: each operation
  rounds, and the sum is taken from 0 from left to right.
\<close>

theorem analyzeResults_summary:
  fixes R :: "('i, rat) TestResult list"
  shows "total (summary (analyzeResults E R)) = length R
   \<and> passed_count (summary (analyzeResults E R)) + failed_count (summary (analyzeResults E R))
       = total (summary (analyzeResults E R))
   \<and> passed_count (summary (analyzeResults E R)) = length (filter passed R)
   \<and> failed_count (summary (analyzeResults E R)) = length (filter (\<lambda>r. \<not> passed r) R)
   \<and> passRate (summary (analyzeResults E R))
       = (if 0 < length R
          then num_mul E (num_div E (of_nat (length (filter passed R))) (of_nat (length R))) 100
          else 0)
   \<and> passRate (summary (analyzeResults E ([] :: ('i, rat) TestResult list))) = 0
   \<and> totalDuration (summary (analyzeResults E R)) = double_sum E (map duration R)
   \<and> failedTests (analyzeResults E R)
       = map (\<lambda>r. \<lparr>failed_testId = testId r, failed_error = error r\<rparr>)
             (filter (\<lambda>r. \<not> passed r) R)"
  by (simp add: analyzeResults_def Let_def double_sum_def foldl_map sum_length_filter_compl)

text \<open>Where no operation rounds, the aggregate is the exact one. The second lemma lists
  the four operations that the example of C7 needs; doubles compute each of them without
  rounding.\<close>

lemma double_sum_exact:
  "(\<And>a b. num_add E a b = a + b) \<Longrightarrow> double_sum E xs = sum_list xs"
proof -
  assume ex: "\<And>a b. num_add E a b = a + b"
  have "foldl (num_add E) a xs = a + sum_list xs" for a
    by (induction xs arbitrary: a) (simp_all add: ex add.assoc)
  from this[of 0] show ?thesis by (simp add: double_sum_def)
qed

lemma analyzeResults_two_results:
  assumes "num_add E 0 10 = 10" and "num_add E 10 5 = 15"
    and "num_div E 1 2 = 1 / 2" and "num_mul E (1 / 2) 100 = 50"
  shows "summary (analyzeResults E
           [\<lparr>testId = a, passed = True, error = None, duration = 10\<rparr>,
            \<lparr>testId = b, passed = False, error = e, duration = 5\<rparr>])
         = \<lparr>total = 2, passed_count = 1, failed_count = 1, passRate = 50,
            totalDuration = 15\<rparr>"
  by (simp add: analyzeResults_def assms)

lemma failing_summary:
  "summary (analyzeResults example_engine [failing_result])
   = \<lparr>total = 1, passed_count = 0, failed_count = 1, passRate = 0, totalDuration = 0\<rparr>"
  by (simp add: analyzeResults_def failing_result_def example_engine_fields)

section \<open>XML rendering\<close>

lemma testcase_step_append: "testcase_step E xml r = xml @ testcase_step E [] r"
  by (simp add: testcase_step_def Let_def)

lemma foldl_testcase_step:
  "foldl (testcase_step E) xml rs = xml @ concat (map (testcase_step E []) rs)"
proof (induction rs arbitrary: xml)
  case Nil
  then show ?case by simp
next
  case (Cons r rs)
  show ?case by (simp add: Cons.IH testcase_step_append[of E xml r])
qed

lemma generateXmlReport_eq:
  "generateXmlReport E ts results a =
     xml_header E ts a @ concat (map (testcase_step E []) results)
     @ ''  </testsuite>\<newline></testsuites>''"
  by (simp add: generateXmlReport_def Let_def foldl_testcase_step)

lemma testcase_failed:
  \<open>\<not> passed r \<Longrightarrow>
   testcase_step E [] r =
     ''    <testcase name="'' @ escapeXml (testId r) @ ''" time="''
     @ seconds_toFixed2 E (duration r) @ ''">\<newline>      <failure message="''
     @ escapeXml (case error r of None \<Rightarrow> ''Test failed''
                  | Some e \<Rightarrow> if e = [] then ''Test failed'' else e)
     @ ''">'' @ escapeXml (case error r of None \<Rightarrow> [] | Some e \<Rightarrow> e)
     @ ''</failure>\<newline>    </testcase>\<newline>''\<close>
  by (simp add: testcase_step_def failure_element_def Let_def str_or_def split: option.splits)

text \<open>
  C9. \<open>escapeXml\<close> replaces every occurrence of \<open>&\<close>, \<open><\<close>, \<open>>\<close>, the double and the single
  quote by its entity and keeps every other character, so its result has none of the five
  characters except the \<open>&\<close> that starts an entity; \<open>a & b\<close> becomes \<open>a &amp; b\<close> and
  \<open><bad>\<close> becomes \<open>&lt;bad&gt;\<close>. The rendered document is the header, one piece per
  result and the closing tags, and in each piece the identifier and the error text occur
  only as arguments of \<open>escapeXml\<close>.
\<close>

theorem escapeXml_escapes_markup:
  \<open>escapeXml s = concat (map xml_entity s)
   \<and> escaped_text (escapeXml s)
   \<and> escapeXml ''a & b'' = ''a &amp; b''
   \<and> escapeXml ''<bad>'' = ''&lt;bad&gt;''
   \<and> generateXmlReport E ts results a =
       xml_header E ts a @ concat (map (testcase_step E []) results)
       @ ''  </testsuite>\<newline></testsuites>''
   \<and> testcase_step E [] r =
       ''    <testcase name="'' @ escapeXml (testId r) @ ''" time="''
       @ seconds_toFixed2 E (duration r) @ ''"''
       @ (if passed r then ''/>\<newline>''
          else ''>\<newline>      <failure message="''
               @ escapeXml (str_or (error r) ''Test failed'') @ ''">''
               @ escapeXml (str_or (error r) [])
               @ ''</failure>\<newline>    </testcase>\<newline>'')\<close>
proof -
  have \<open>escapeXml ''a & b'' = ''a &amp; b''\<close>
    by (simp add: escapeXml_Cons xml_entity_def)
  moreover have \<open>escapeXml ''<bad>'' = ''&lt;bad&gt;''\<close>
    by (simp add: escapeXml_Cons xml_entity_def)
  moreover have \<open>testcase_step E [] r =
       ''    <testcase name="'' @ escapeXml (testId r) @ ''" time="''
       @ seconds_toFixed2 E (duration r) @ ''"''
       @ (if passed r then ''/>\<newline>''
          else ''>\<newline>      <failure message="''
               @ escapeXml (str_or (error r) ''Test failed'') @ ''">''
               @ escapeXml (str_or (error r) [])
               @ ''</failure>\<newline>    </testcase>\<newline>'')\<close>
    by (simp add: testcase_step_def failure_element_def Let_def)
  ultimately show ?thesis
    using escapeXml_concat_map[of s] escaped_text_escapeXml[of s]
      generateXmlReport_eq[of E ts results a]
    by blast
qed

lemma failing_header:
  \<open>xml_header example_engine ''T'' (analyzeResults example_engine [failing_result])
     = ''<?xml version="1.0" encoding="UTF-8"?>\<newline>''
       @ ''<testsuites name="AI Testing Agent Results" time="0.00" tests="1" failures="1" timestamp="T">\<newline>''
       @ ''  <testsuite name="TestSuite" tests="1" failures="1" time="0.00">\<newline>''\<close>
  by (simp add: xml_header_def Let_def failing_summary example_engine_fields show_nat_1)

lemma failing_piece:
  \<open>testcase_step example_engine [] failing_result
     = ''    <testcase name="t" time="0.00">\<newline>''
       @ ''      <failure message="Test failed"></failure>\<newline>''
       @ ''    </testcase>\<newline>''\<close>
  by (simp add: testcase_step_def failure_element_def str_or_def Let_def failing_result_def
        example_engine_fields escapeXml_Cons xml_entity_def)

lemma failing_document:
  \<open>generateXmlReport example_engine ''T'' [failing_result] (analyzeResults example_engine [failing_result])
     = ''<?xml version="1.0" encoding="UTF-8"?>\<newline>''
       @ ''<testsuites name="AI Testing Agent Results" time="0.00" tests="1" failures="1" timestamp="T">\<newline>''
       @ ''  <testsuite name="TestSuite" tests="1" failures="1" time="0.00">\<newline>''
       @ ''    <testcase name="t" time="0.00">\<newline>''
       @ ''      <failure message="Test failed"></failure>\<newline>''
       @ ''    </testcase>\<newline>''
       @ ''  </testsuite>\<newline>''
       @ ''</testsuites>''\<close>
  by (simp add: generateXmlReport_eq failing_header failing_piece)

lemma failing_document_no_empty_message:
  \<open>\<not> sublist ''<failure message=""''
         (generateXmlReport example_engine ''T'' [failing_result]
            (analyzeResults example_engine [failing_result]))\<close>
  by code_simp

text \<open>
  C4, as the specification states it: the failure element of a failing result without
  error text has an empty \<open>message\<close> attribute and an empty body. It fails for the result
  \<open>failing_result\<close>: the attribute reads \<open>Test failed\<close>, and no failure element with an
  empty message occurs in the document.
\<close>

theorem failure_message_counterexample:
  \<open>generateXmlReport example_engine ''T'' [failing_result] (analyzeResults example_engine [failing_result])
     = ''<?xml version="1.0" encoding="UTF-8"?>\<newline>''
       @ ''<testsuites name="AI Testing Agent Results" time="0.00" tests="1" failures="1" timestamp="T">\<newline>''
       @ ''  <testsuite name="TestSuite" tests="1" failures="1" time="0.00">\<newline>''
       @ ''    <testcase name="t" time="0.00">\<newline>''
       @ ''      <failure message="Test failed"></failure>\<newline>''
       @ ''    </testcase>\<newline>''
       @ ''  </testsuite>\<newline>''
       @ ''</testsuites>''
   \<and> \<not> sublist ''<failure message=""''
         (generateXmlReport example_engine ''T'' [failing_result]
            (analyzeResults example_engine [failing_result]))\<close>
  using failing_document failing_document_no_empty_message by (rule conjI)

text \<open>
  C4, amended. For every failing result of the rendered sequence the document nests,
  inside the result's \<open>testcase\<close> element, a failure element whose body is the escaped
  error text, empty when the text is absent, and whose \<open>message\<close> attribute is the escaped
  error text when that text is present and not empty, and \<open>Test failed\<close> otherwise.
\<close>

theorem failing_result_has_failure_element:
  assumes "r \<in> set results" and "\<not> passed r"
  shows \<open>\<exists>pre post.
     generateXmlReport E ts results a =
       pre @ ''    <testcase name="'' @ escapeXml (testId r) @ ''" time="''
       @ seconds_toFixed2 E (duration r) @ ''">\<newline>      <failure message="''
       @ escapeXml (case error r of None \<Rightarrow> ''Test failed''
                    | Some e \<Rightarrow> if e = [] then ''Test failed'' else e)
       @ ''">'' @ escapeXml (case error r of None \<Rightarrow> [] | Some e \<Rightarrow> e)
       @ ''</failure>\<newline>    </testcase>\<newline>'' @ post\<close>
proof -
  from assms(1) obtain xs ys where split: "results = xs @ r # ys"
    by (auto simp: in_set_conv_decomp)
  let ?piece = "testcase_step E []"
  have doc: "generateXmlReport E ts results a =
      (xml_header E ts a @ concat (map ?piece xs)) @ ?piece r
      @ (concat (map ?piece ys) @ ''  </testsuite>\<newline></testsuites>'')"
    by (simp add: generateXmlReport_eq split)
  show ?thesis
    apply (rule exI[of _ "xml_header E ts a @ concat (map ?piece xs)"])
    apply (rule exI[of _ "concat (map ?piece ys) @ ''  </testsuite>\<newline></testsuites>''"])
    apply (simp add: doc testcase_failed[OF assms(2)])
    done
qed

theorem failing_result_has_failure_element_witness:
  \<open>failing_result \<in> set [failing_result] \<and> \<not> passed failing_result
   \<and> (\<exists>pre post.
        generateXmlReport example_engine ''T'' [failing_result] (analyzeResults example_engine [failing_result]) =
          pre @ ''    <testcase name="t" time="0.00">\<newline>      <failure message="Test failed"></failure>\<newline>    </testcase>\<newline>'' @ post)\<close>
proof -
  have mem: "failing_result \<in> set [failing_result]" by simp
  have np: "\<not> passed failing_result" by (simp add: failing_result_def)
  have fields: "testId failing_result = ''t''" "error failing_result = None"
    "seconds_toFixed2 example_engine (duration failing_result) = ''0.00''"
    by (simp_all add: failing_result_def example_engine_def)
  have esc: "escapeXml ''t'' = ''t''" "escapeXml ''Test failed'' = ''Test failed''"
    by (simp_all add: escapeXml_Cons xml_entity_def)
  show ?thesis
    using failing_result_has_failure_element
            [OF mem np, of example_engine "''T''" "analyzeResults example_engine [failing_result]"] mem np
    by (simp add: fields esc)
qed

section \<open>Normalization of runner documents\<close>

lemma andThen_Inr [simp]: "andThen (Inr x) f = f x"
  by (simp add: andThen_def)

lemma andThen_Inl [simp]: "andThen (Inl e) f = Inl e"
  by (simp add: andThen_def)

lemma get_obj: "is_obj j \<Longrightarrow> get (Some j) k = Inr (field j k)"
  by (cases j) (simp_all add: get_def field_def)

lemma get_field: "j \<noteq> JNull \<Longrightarrow> get (Some j) k = Inr (field j k)"
  by (cases j) (simp_all add: get_def field_def)

lemma opt_str_cases: "opt_str v \<Longrightarrow> v = None \<or> v = Some JNull \<or> (\<exists>s. v = Some (JStr s))"
  by (cases v rule: opt_str.cases) simp_all

lemma str_or_undefined_cases:
  "str_or_undefined v \<Longrightarrow> v = None \<or> (\<exists>s. v = Some (JStr s))"
  by (cases v rule: str_or_undefined.cases) simp_all

lemma opt_num_cases: "opt_num v \<Longrightarrow> v = None \<or> v = Some JNull \<or> (\<exists>r. v = Some (JNum r))"
  by (cases v rule: opt_num.cases) simp_all

lemma opt_arr_cases:
  "opt_arr P v \<Longrightarrow> v = None \<or> v = Some JNull \<or> (\<exists>xs. v = Some (JArr xs) \<and> list_all P xs)"
  by (cases "(P, v)" rule: opt_arr.cases) simp_all

lemma iterate_opt_arr:
  "opt_arr P (field j k) \<Longrightarrow> iterate (js_or (field j k) (Some (JArr []))) = Inr (arr_field j k)"
  by (auto dest!: opt_arr_cases simp: js_or_def iterate_def arr_field_def)

lemma opt_arr_all: "opt_arr P (field j k) \<Longrightarrow> list_all P (arr_field j k)"
  by (auto dest!: opt_arr_cases simp: arr_field_def)

lemma array_join_strings:
  "list_all is_str ms \<Longrightarrow> array_join E sep ms = join sep (map the_str ms)"
proof -
  assume "list_all is_str ms"
  then have "map (\<lambda>x. if x = JNull then [] else str_of E x) ms = map the_str ms"
    by (induction ms) (auto elim: is_str.elims)
  then show ?thesis unfolding array_join_def by (rule arg_cong)
qed

lemma array_join_JStr: "array_join E sep (map JStr xs) = join sep xs"
  by (simp add: array_join_def comp_def)

text \<open>A loop that pushes one result per element appends the results in order; a loop
  whose body appends a block per element appends the blocks in order.\<close>

lemma forOf_push:
  assumes "\<And>x. x \<in> set xs \<Longrightarrow> f x = Inr (g x)"
  shows "forOf xs (\<lambda>x results. andThen (f x) (\<lambda>r. Inr (results @ [r]))) acc
         = Inr (acc @ map g xs)"
  using assms by (induction xs arbitrary: acc) simp_all

lemma forOf_append:
  assumes "\<And>x acc. x \<in> set xs \<Longrightarrow> body x acc = Inr (acc @ g x)"
  shows "forOf xs body acc = Inr (acc @ concat (map g xs))"
  using assms by (induction xs arbitrary: acc) simp_all

lemma mapE_total:
  assumes "\<And>x. x \<in> set xs \<Longrightarrow> f x = Inr (g x)"
  shows "mapE f xs = Inr (map g xs)"
  using assms by (induction xs) simp_all

subsection \<open>Jest\<close>

lemma jest_entry_spec:
  assumes "jest_assertion a"
  shows "jest_entry E a = Inr (spec_jest_result a)"
proof -
  from assms have obj: "is_obj a"
    and fn: "opt_str (field a ''fullName'')" and ti: "str_or_undefined (field a ''title'')"
    and fm: "opt_arr is_str (field a ''failureMessages'')"
    and du: "opt_num (field a ''duration'')"
    by (simp_all add: jest_assertion_def)
  have ident:
    "(if truthy (field a ''fullName'') then Inr (field a ''fullName'')
      else get (Some a) ''title'')
     = Inr (map_option JStr
             (case str_field a ''fullName'' of
                None \<Rightarrow> str_field a ''title''
              | Some n \<Rightarrow> if n = [] then str_field a ''title'' else Some n))"
    using opt_str_cases[OF fn] str_or_undefined_cases[OF ti]
    by (auto simp: str_field_def get_obj[OF obj])
  have err:
    "(if nullish (field a ''failureMessages'') then Inr None
      else (case field a ''failureMessages'' of
              Some (JArr ms) \<Rightarrow> Inr (Some (array_join E ''\<newline>'' ms))
            | _ \<Rightarrow> Inl (TypeError ''assertionResult.failureMessages.join is not a function'')))
     = Inr (if nullish (field a ''failureMessages'') then None
            else Some (join ''\<newline>'' (map the_str (arr_field a ''failureMessages''))))"
    using opt_arr_cases[OF fm] by (auto simp: nullish_def arr_field_def array_join_strings)
  have err2:
    "(case (if nullish (field a ''failureMessages'') then None
            else Some (join ''\<newline>'' (map the_str (arr_field a ''failureMessages''))))
      of None \<Rightarrow> None | Some s \<Rightarrow> non_empty s)
     = non_empty (join ''\<newline>'' (map the_str (arr_field a ''failureMessages'')))"
    using opt_arr_cases[OF fm]
    by (auto simp: nullish_def arr_field_def non_empty_def join_def)
  have dur:
    "or_default (field a ''duration'') (JNum 0)
     = JNum (case num_field a ''duration'' of None \<Rightarrow> 0 | Some d \<Rightarrow> d)"
    using opt_num_cases[OF du] by (auto simp: or_default_def num_field_def)
  have st:
    "(field a ''status'' = Some (JStr ''passed'')) = (str_field a ''status'' = Some ''passed'')"
    by (auto simp: str_field_def split: option.splits json.splits)
  show ?thesis
    by (simp add: jest_entry_def get_obj[OF obj] ident err err2 dur st spec_jest_result_def)
qed

lemma parseJestResults_spec:
  assumes "jest_document doc"
  shows "parseJestResults E doc
         = Inr (concat (map (\<lambda>s. map spec_jest_result (arr_field s ''assertionResults''))
                            (arr_field doc ''testResults'')))"
proof -
  from assms obtain ss where ss: "field doc ''testResults'' = Some (JArr ss)"
    and all: "list_all jest_suite ss"
    by (auto simp: jest_document_def split: option.splits json.splits)
  then have obj: "is_obj doc" by (cases doc) (simp_all add: field_def)
  have body:
    "andThen (get (Some s) ''assertionResults'') (\<lambda>ars.
       andThen (iterate ars) (\<lambda>assertionResults.
       forOf assertionResults (\<lambda>assertionResult results.
         andThen (jest_entry E assertionResult) (\<lambda>r. Inr (results @ [r]))) acc))
     = Inr (acc @ map spec_jest_result (arr_field s ''assertionResults''))"
    if "s \<in> set ss" for s acc
  proof -
    from that all have "jest_suite s" by (simp add: list_all_iff)
    then obtain as where as: "field s ''assertionResults'' = Some (JArr as)"
      and ok: "list_all jest_assertion as"
      by (auto simp: jest_suite_def split: option.splits json.splits)
    then have "is_obj s" by (cases s) (simp_all add: field_def)
    moreover have "forOf as (\<lambda>assertionResult results.
         andThen (jest_entry E assertionResult) (\<lambda>r. Inr (results @ [r]))) acc
       = Inr (acc @ map spec_jest_result as)"
      by (rule forOf_push) (use ok in \<open>simp add: list_all_iff jest_entry_spec\<close>)
    ultimately show ?thesis using as by (simp add: get_obj iterate_def arr_field_def)
  qed
  have "forOf ss (\<lambda>testResult results.
       andThen (get (Some testResult) ''assertionResults'') (\<lambda>ars.
       andThen (iterate ars) (\<lambda>assertionResults.
       forOf assertionResults (\<lambda>assertionResult results.
         andThen (jest_entry E assertionResult) (\<lambda>r. Inr (results @ [r]))) results))) []
     = Inr ([] @ concat (map (\<lambda>s. map spec_jest_result (arr_field s ''assertionResults'')) ss))"
    by (rule forOf_append) (rule body)
  then show ?thesis
    using ss obj by (simp add: parseJestResults_def get_obj iterate_def arr_field_def)
qed

subsection \<open>Playwright\<close>

lemma error_text_spec: "pw_error e \<Longrightarrow> error_text E e = Inr (JStr (spec_error_text E e))"
  by (auto dest!: opt_str_cases
      simp: pw_error_def error_text_def get_field or_default_def spec_error_text_def
        str_field_def)

lemma pw_entry_spec:
  assumes "is_obj suite" "is_str_val (field suite ''title'')" "pw_spec spec" "pw_test test"
  shows "pw_entry E suite spec test = Inr (spec_pw_result E suite spec test)"
proof -
  from assms(3) have sp: "is_obj spec" "is_str_val (field spec ''title'')"
    by (simp_all add: pw_spec_def)
  from assms(4) have t: "is_obj test" and er: "opt_arr pw_error (field test ''errors'')"
    and du: "opt_num (field test ''duration'')" by (simp_all add: pw_test_def)
  from assms(2) obtain a where a: "field suite ''title'' = Some (JStr a)"
    by (cases "field suite ''title''" rule: is_str_val.cases) simp_all
  from sp(2) obtain b where b: "field spec ''title'' = Some (JStr b)"
    by (cases "field spec ''title''" rule: is_str_val.cases) simp_all
  have err:
    "(if nullish (field test ''errors'') then Inr None
      else (case field test ''errors'' of
              Some (JArr es) \<Rightarrow>
                andThen (mapE (error_text E) es) (\<lambda>ms.
                Inr (Some (array_join E ''\<newline>'' ms)))
            | _ \<Rightarrow> Inl (TypeError ''test.errors.map is not a function'')))
     = Inr (if nullish (field test ''errors'') then None
            else Some (join ''\<newline>'' (map (spec_error_text E) (arr_field test ''errors''))))"
  proof -
    from opt_arr_cases[OF er] consider "nullish (field test ''errors'')"
      | es where "field test ''errors'' = Some (JArr es)" "list_all pw_error es"
      by (auto simp: nullish_def)
    then show ?thesis
    proof cases
      case 1
      then show ?thesis by simp
    next
      case 2
      then have "mapE (error_text E) es = Inr (map (\<lambda>e. JStr (spec_error_text E e)) es)"
        by (intro mapE_total) (simp add: list_all_iff error_text_spec)
      then show ?thesis using 2 array_join_JStr[of E _ "map (spec_error_text E) es"]
        by (simp add: nullish_def arr_field_def comp_def)
    qed
  qed
  have err2:
    "(case (if nullish (field test ''errors'') then None
            else Some (join ''\<newline>'' (map (spec_error_text E) (arr_field test ''errors''))))
      of None \<Rightarrow> None | Some s \<Rightarrow> non_empty s)
     = non_empty (join ''\<newline>'' (map (spec_error_text E) (arr_field test ''errors'')))"
    using opt_arr_cases[OF er]
    by (auto simp: nullish_def arr_field_def non_empty_def join_def)
  have dur:
    "or_default (field test ''duration'') (JNum 0)
     = JNum (case num_field test ''duration'' of None \<Rightarrow> 0 | Some d \<Rightarrow> d)"
    using opt_num_cases[OF du] by (auto simp: or_default_def num_field_def)
  have st: "(field test ''status'' = Some (JStr x)) = (str_field test ''status'' = Some x)"
    for x
    by (auto simp: str_field_def split: option.splits json.splits)
  have titles: "title_of suite = a" "title_of spec = b"
    using a b by (simp_all add: title_of_def str_field_def)
  show ?thesis
    by (simp add: pw_entry_def get_obj assms(1) sp(1) t a b err err2 dur st spec_pw_result_def
          toString_def titles)
qed

lemma spec_loop_spec:
  assumes "is_obj suite" "is_str_val (field suite ''title'')" "pw_spec spec"
  shows "spec_loop E suite spec acc
         = Inr (acc @ map (spec_pw_result E suite spec) (arr_field spec ''tests''))"
proof -
  from assms(3) have sp: "is_obj spec" and ts: "opt_arr pw_test (field spec ''tests'')"
    by (simp_all add: pw_spec_def)
  have "forOf (arr_field spec ''tests'') (\<lambda>test results.
       andThen (pw_entry E suite spec test) (\<lambda>r. Inr (results @ [r]))) acc
       = Inr (acc @ map (spec_pw_result E suite spec) (arr_field spec ''tests''))"
    by (rule forOf_push)
       (use opt_arr_all[OF ts] assms in \<open>simp add: list_all_iff pw_entry_spec\<close>)
  then show ?thesis by (simp add: spec_loop_def get_obj sp iterate_opt_arr[OF ts])
qed

lemma extract_spec:
  "pw_suite suite \<Longrightarrow>
   extractPlaywrightTestResults E suite acc = Inr (acc @ spec_pw_flatten E suite)"
proof (induction E suite arbitrary: acc rule: spec_pw_flatten.induct)
  case (1 E suite)
  from "1.prems" have obj: "is_obj suite" and ti: "is_str_val (field suite ''title'')"
    and sp: "opt_arr pw_spec (field suite ''specs'')"
    and su: "opt_arr (\<lambda>c. True) (field suite ''suites'')"
    and ch: "list_all pw_suite (arr_field suite ''suites'')"
    by (simp_all add: pw_suite.simps[of suite])
  have own: "forOf (arr_field suite ''specs'') (spec_loop E suite) acc
             = Inr (acc @ spec_pw_own E suite)"
    unfolding spec_pw_own_def
    by (rule forOf_append)
       (use opt_arr_all[OF sp] obj ti in \<open>simp add: list_all_iff spec_loop_spec\<close>)
  have kids: "forOf (arr_field suite ''suites'') (\<lambda>childSuite results.
       extractPlaywrightTestResults E childSuite results) acc'
     = Inr (acc' @ concat (map (spec_pw_flatten E) (arr_field suite ''suites'')))" for acc'
    by (rule forOf_append) (use ch "1.IH" in \<open>simp add: list_all_iff\<close>)
  show ?case
    by (subst extractPlaywrightTestResults.simps, subst spec_pw_flatten.simps)
       (simp add: get_obj obj iterate_opt_arr[OF sp] iterate_opt_arr[OF su] own kids)
qed

lemma parsePlaywrightResults_spec:
  assumes "pw_document doc"
  shows "parsePlaywrightResults E doc
         = Inr (concat (map (spec_pw_flatten E) (arr_field doc ''suites'')))"
proof -
  from assms have obj: "is_obj doc" and su: "opt_arr pw_suite (field doc ''suites'')"
    by (simp_all add: pw_document_def)
  have "forOf (arr_field doc ''suites'')
          (\<lambda>suite results. extractPlaywrightTestResults E suite results) []
     = Inr ([] @ concat (map (spec_pw_flatten E) (arr_field doc ''suites'')))"
    by (rule forOf_append) (use opt_arr_all[OF su] in \<open>simp add: list_all_iff extract_spec\<close>)
  then show ?thesis
    by (simp add: parsePlaywrightResults_def get_obj obj iterate_opt_arr[OF su])
qed

lemma spec_pw_flatten_tests:
  "spec_pw_flatten E suite
   = map (\<lambda>(su, sp, t). spec_pw_result E su sp t) (pw_tests suite)"
proof (induction suite rule: pw_tests.induct)
  case (1 suite)
  have "concat (map (spec_pw_flatten E) (arr_field suite ''suites''))
        = concat (map (\<lambda>c. map (\<lambda>(su, sp, t). spec_pw_result E su sp t) (pw_tests c))
                      (arr_field suite ''suites''))"
    using "1.IH" by (simp cong: map_cong)
  then show ?case
    by (subst spec_pw_flatten.simps, subst pw_tests.simps)
       (simp add: spec_pw_own_def map_concat comp_def)
qed

subsection \<open>The examples\<close>

lemma jest_example_shape: "jest_document jest_example"
  by (simp add: jest_document_def jest_example_def field_def jest_suite_def jest_assertion_def)

lemma jest_example_records:
  "jest_assertions jest_example =
     [JObj [(''fullName'', JStr ''math adds''), (''title'', JStr ''adds''),
            (''status'', JStr ''passed''), (''failureMessages'', JArr []),
            (''duration'', JNum 10)],
      JObj [(''fullName'', JStr ''math divides''), (''title'', JStr ''divides''),
            (''status'', JStr ''failed''), (''failureMessages'', JArr [JStr ''boom'']),
            (''duration'', JNum 5)]]"
  by (simp add: jest_assertions_def jest_example_def arr_field_def field_def)

lemma pw_example_shape: "pw_document pw_example"
  by (simp add: pw_document_def pw_example_def field_def arr_field_def pw_suite.simps
        pw_spec_def pw_test_def)

lemma jest_order_shape: "jest_document jest_order_example"
  by (simp add: jest_document_def jest_order_example_def field_def jest_suite_def
        jest_assertion_def)

lemma pw_order_root_shape: "pw_suite pw_order_root"
  by (simp add: pw_order_root_def field_def arr_field_def pw_suite.simps pw_spec_def
        pw_test_def pw_error_def)

lemma pw_order_shape: "pw_document pw_order_example"
  by (simp add: pw_document_def pw_order_example_def field_def pw_order_root_shape)

lemma pw_order_flatten: "spec_pw_flatten E pw_order_root = pw_order_results"
  by (simp add: pw_order_root_def spec_pw_flatten.simps spec_pw_own_def arr_field_def field_def
        spec_pw_result_def title_of_def str_field_def num_field_def non_empty_def join_def
        spec_error_text_def pw_order_results_def)

lemma pw_order_parse:
  "parsePlaywrightResults E pw_order_example = Inr pw_order_results"
  using parsePlaywrightResults_spec[OF pw_order_shape, of E]
  by (simp add: pw_order_example_def arr_field_def field_def pw_order_flatten)

subsection \<open>The claims about normalization\<close>

text \<open>
  C7. On a flat-suite document (every suite record holds an array of assertion records;
  in a record the fully qualified name, the title, the failure messages and the duration
  are of their types or absent), \<open>parseJestResults\<close> returns without error exactly one
  result per assertion record of each suite record. The result is \<open>spec_jest_result\<close> of
  the record: the identifier is the fully qualified name, the short title when that name
  is absent or empty; \<open>passed\<close> says that the status is the string \<open>passed\<close>; the error is
  the failure messages joined by newlines and is absent when there is no message text;
  the duration is the reported one, 0 when none is reported. The witness is the example
  of the claim: one suite, a passed assertion of duration 10 and a failed one with message
  \<open>boom\<close> and duration 5 give two results that aggregate to total 2, passed 1, failed 1,
  pass rate 50 and total duration 15. This aggregate needs the four operations
  \<open>0 + 10\<close>, \<open>10 + 5\<close>, \<open>1 / 2\<close> and \<open>0.5 * 100\<close>, none of which rounds in doubles; it is the
  same for every engine that computes them so (\<open>analyzeResults_two_results\<close>).
\<close>

theorem jest_normalization:
  assumes "jest_document doc"
  shows "parseJestResults E doc = Inr (map spec_jest_result (jest_assertions doc))"
  using parseJestResults_spec[OF assms, of E]
  by (simp add: jest_assertions_def map_concat comp_def)

theorem jest_normalization_witness:
  "jest_document jest_example
   \<and> parseJestResults example_engine jest_example
       = Inr [\<lparr>testId = Some (JStr ''math adds''), passed = True, error = None,
               duration = JNum 10\<rparr>,
              \<lparr>testId = Some (JStr ''math divides''), passed = False, error = Some ''boom'',
               duration = JNum 5\<rparr>]
   \<and> (case parseJestResults example_engine jest_example of
          Inl e \<Rightarrow> None
        | Inr rs \<Rightarrow> map_option (\<lambda>ts. summary (analyzeResults example_engine ts)) (as_TestResults rs))
       = Some \<lparr>total = 2, passed_count = 1, failed_count = 1, passRate = 50,
               totalDuration = 15\<rparr>"
proof -
  have rs: "parseJestResults example_engine jest_example
       = Inr [\<lparr>testId = Some (JStr ''math adds''), passed = True, error = None,
               duration = JNum 10\<rparr>,
              \<lparr>testId = Some (JStr ''math divides''), passed = False, error = Some ''boom'',
               duration = JNum 5\<rparr>]"
    using jest_normalization[OF jest_example_shape, of example_engine]
    by (simp add: jest_example_records spec_jest_result_def str_field_def num_field_def
          arr_field_def field_def non_empty_def join_def)
  show ?thesis
    using jest_example_shape
    by (simp add: rs as_TestResults_def as_TestResult_def analyzeResults_def
          example_engine_fields)
qed

text \<open>
  C8. On a nested-suite document (suites and specs have a title; specs, child suites,
  tests and errors are arrays or absent), \<open>parsePlaywrightResults\<close> returns without error
  exactly one result per test run found at any depth of the suite tree (\<open>pw_tests\<close> lists
  them with their spec and the suite that directly holds the spec). The result is
  \<open>spec_pw_result\<close>: the identifier is the title of that innermost suite, the separator
  and the title of the spec; \<open>passed\<close> says that the status is \<open>passed\<close> or \<open>expected\<close>; the
  error is the message of each attached error, or the stringified error when it has no
  message, joined by newlines, and is absent when there is no such text; the duration is
  the reported one, 0 when none is reported. The witness is the example of the claim: root
  suite \<open>A\<close>, child suite \<open>B\<close>, one spec \<open>t1\<close> with one test of status \<open>expected\<close> give one
  passing result whose identifier is built from \<open>B\<close> and \<open>t1\<close>.
\<close>

theorem playwright_normalization:
  assumes "pw_document doc"
  shows "parsePlaywrightResults E doc
         = Inr (map (\<lambda>(suite, spec, test). spec_pw_result E suite spec test)
                    (concat (map pw_tests (arr_field doc ''suites''))))"
proof -
  have "spec_pw_flatten E
        = (\<lambda>s. map (\<lambda>(suite, spec, test). spec_pw_result E suite spec test) (pw_tests s))"
    by (rule ext) (rule spec_pw_flatten_tests)
  then show ?thesis
    using parsePlaywrightResults_spec[OF assms, of E] by (simp add: map_concat comp_def)
qed

theorem playwright_normalization_witness:
  "pw_document pw_example
   \<and> parsePlaywrightResults example_engine pw_example
       = Inr [\<lparr>testId = Some (JStr (''B'' @ separator @ ''t1'')), passed = True, error = None,
               duration = JNum 0\<rparr>]"
  using playwright_normalization[OF pw_example_shape, of example_engine] pw_example_shape
  by (simp add: pw_example_def pw_tests.simps arr_field_def field_def spec_pw_result_def
        title_of_def str_field_def num_field_def non_empty_def join_def)

text \<open>
  C10. Both normalizers keep the order of the document. For a flat-suite document the
  results are, suite after suite in the order of the suites, the results of the suite's
  assertion records in their order. For a nested-suite document the results are the
  flattenings of the top-level suites in order, where the flattening of a suite is first
  the results of its own specs (spec after spec, test run after test run) and then the
  flattenings of its child suites in document order; the traversal of a suite appends
  this to the results collected before it.
\<close>

theorem normalization_preserves_order:
  "(jest_document jdoc \<longrightarrow>
      parseJestResults E jdoc
      = Inr (concat (map (\<lambda>s. map spec_jest_result (arr_field s ''assertionResults''))
                         (arr_field jdoc ''testResults''))))
   \<and> (pw_document pdoc \<longrightarrow>
      parsePlaywrightResults E pdoc
      = Inr (concat (map (spec_pw_flatten E) (arr_field pdoc ''suites''))))
   \<and> (pw_suite suite \<longrightarrow>
      extractPlaywrightTestResults E suite acc = Inr (acc @ spec_pw_flatten E suite))
   \<and> spec_pw_flatten E suite
      = concat (map (\<lambda>spec. map (spec_pw_result E suite spec) (arr_field spec ''tests''))
                    (arr_field suite ''specs''))
        @ concat (map (spec_pw_flatten E) (arr_field suite ''suites''))"
  using parseJestResults_spec[of jdoc E] parsePlaywrightResults_spec[of pdoc E]
    extract_spec[of suite E acc] spec_pw_flatten.simps[of E suite]
  by (simp add: spec_pw_own_def)

theorem normalization_preserves_order_witness:
  "jest_document jest_order_example
   \<and> parseJestResults example_engine jest_order_example
       = Inr [\<lparr>testId = Some (JStr ''a1''), passed = True, error = None, duration = JNum 0\<rparr>,
              \<lparr>testId = Some (JStr ''a2''), passed = False, error = None, duration = JNum 0\<rparr>,
              \<lparr>testId = Some (JStr ''b1''), passed = True, error = None, duration = JNum 0\<rparr>]
   \<and> pw_document pw_order_example
   \<and> parsePlaywrightResults example_engine pw_order_example = Inr pw_order_results
   \<and> pw_suite pw_order_root
   \<and> extractPlaywrightTestResults example_engine pw_order_root [executionError ''earlier'']
       = Inr (executionError ''earlier'' # pw_order_results)"
proof -
  note th = normalization_preserves_order
              [of jest_order_example example_engine pw_order_example pw_order_root
                  "[executionError ''earlier'']"]
  have j: "concat (map (\<lambda>s. map spec_jest_result (arr_field s ''assertionResults''))
                       (arr_field jest_order_example ''testResults''))
     = [\<lparr>testId = Some (JStr ''a1''), passed = True, error = None, duration = JNum 0\<rparr>,
        \<lparr>testId = Some (JStr ''a2''), passed = False, error = None, duration = JNum 0\<rparr>,
        \<lparr>testId = Some (JStr ''b1''), passed = True, error = None, duration = JNum 0\<rparr>]"
    by (simp add: jest_order_example_def arr_field_def field_def spec_jest_result_def
          str_field_def num_field_def non_empty_def join_def)
  have p: "arr_field pw_order_example ''suites'' = [pw_order_root]"
    by (simp add: pw_order_example_def arr_field_def field_def)
  show ?thesis
    using th jest_order_shape pw_order_shape pw_order_root_shape
    by (simp add: j p pw_order_flatten)
qed

section \<open>The runners\<close>

lemma tryCatch_Inr [simp]: "tryCatch (Inr x) h = Inr x"
  by (simp add: tryCatch_def)

lemma tryCatch_Inl [simp]: "tryCatch (Inl e) h = h e"
  by (simp add: tryCatch_def)

text \<open>Whatever the process does, neither \<open>runTests\<close> rejects: the outer \<open>catch\<close> clause of
  each returns a result.\<close>

lemma runTests_never_rejects:
  "\<exists>rs. JestTestRunner_runTests E outcome = Inr rs"
  "\<exists>rs. PlaywrightTestRunner_runTests E outcome = Inr rs"
  by (auto simp: JestTestRunner_runTests_def PlaywrightTestRunner_runTests_def tryCatch_def
      split: exec_result.splits sum.splits option.splits)

text \<open>
  C1 says that when the process exits successfully and its output is not valid JSON,
  \<open>runTests\<close> fails with an error whose message starts with \<open>Failed to parse ... results\<close>
  and does not return a synthetic failing result. The code does build that error, but
  throws it inside the outer \<open>try\<close> block, whose \<open>catch\<close> clause turns it into the synthetic
  result: in both runners the call returns the one result \<open>test-execution-error\<close> that
  carries the message of the parse error. The witness is the output \<open>not json\<close>.
\<close>

theorem parse_failure_becomes_result:
  assumes "JSON_parse E stdout = Inl m"
  shows "JestTestRunner_runTests E (Resolved stdout stderr)
           = Inr [executionError (''Failed to parse Jest results: '' @ m)]
       \<and> PlaywrightTestRunner_runTests E (Resolved stdout stderr)
           = Inr [executionError (''Failed to parse Playwright results: '' @ m)]"
  using assms
  by (simp add: JestTestRunner_runTests_def PlaywrightTestRunner_runTests_def parseJSON_def
        jest_recover_def)

theorem parse_failure_becomes_result_witness:
  "JSON_parse example_engine ''not json'' = Inl ''Unexpected token''
   \<and> JestTestRunner_runTests example_engine (Resolved ''not json'' [])
       = Inr [\<lparr>testId = Some (JStr ''test-execution-error''), passed = False,
               error = Some ''Failed to parse Jest results: Unexpected token'',
               duration = JNum 0\<rparr>]
   \<and> PlaywrightTestRunner_runTests example_engine (Resolved ''not json'' [])
       = Inr [\<lparr>testId = Some (JStr ''test-execution-error''), passed = False,
               error = Some ''Failed to parse Playwright results: Unexpected token'',
               duration = JNum 0\<rparr>]"
proof -
  have p: "JSON_parse example_engine ''not json'' = Inl ''Unexpected token''"
    by (simp add: example_engine_def)
  show ?thesis
    using parse_failure_becomes_result[OF p, of "[]"] p by (simp add: executionError_def)
qed

text \<open>The Jest runner, when the process exits with a non-zero code and its output parses
  and normalizes, returns the normalized results.\<close>

lemma jest_nonzero_exit_with_json:
  assumes "out \<noteq> []" and "parseJSON E out = Inr doc" and "parseJestResults E doc = Inr rs"
  shows "JestTestRunner_runTests E (Rejected msg (Some out)) = Inr rs"
  using assms by (simp add: JestTestRunner_runTests_def jest_recover_def)

text \<open>
  C3 says that both runners, when the process exits with a non-zero code and its output
  is valid JSON of the expected shape, return the results normalized from that output.
  The Jest runner does (\<open>jest_nonzero_exit_with_json\<close>). The Playwright runner never looks
  at the output of a failed process: for every engine, message and output it returns the
  single result \<open>test-execution-error\<close>. With the output \<open>PLAYWRIGHT\<close>, which parses to a
  document that normalizes to four results, one of them failed, it still returns that
  single result.
\<close>

theorem playwright_nonzero_exit_discards_stdout:
  "PlaywrightTestRunner_runTests E (Rejected msg out) = Inr [executionError msg]
   \<and> parseJSON example_engine ''PLAYWRIGHT'' = Inr pw_order_example
   \<and> parsePlaywrightResults example_engine pw_order_example = Inr pw_order_results
   \<and> PlaywrightTestRunner_runTests example_engine
         (Rejected ''Command failed'' (Some ''PLAYWRIGHT''))
       = Inr [\<lparr>testId = Some (JStr ''test-execution-error''), passed = False,
               error = Some ''Command failed'', duration = JNum 0\<rparr>]"
proof -
  have gen: "PlaywrightTestRunner_runTests E' (Rejected msg' out') = Inr [executionError msg']"
    for E' msg' out'
    by (simp add: PlaywrightTestRunner_runTests_def)
  have "parseJSON example_engine ''PLAYWRIGHT'' = Inr pw_order_example"
    by (simp add: parseJSON_def example_engine_def)
  then show ?thesis by (simp add: gen executionError_def pw_order_parse)
qed

text \<open>
  C5. When the process cannot be started or exits with a non-zero code, and its output is
  absent, empty or cannot be parsed and normalized, \<open>runTests\<close> of either runner returns
  (it does not reject) exactly one result, with identifier \<open>test-execution-error\<close>,
  \<open>passed = false\<close>, duration 0 and the failure message as error text; this result has the
  declared type of a TestResult, and its error text is not empty since the failure
  message is not.
\<close>

theorem execution_failure_yields_one_result:
  assumes "msg \<noteq> []"
    and "out = None \<or> out = Some []
         \<or> (\<exists>s e. out = Some s \<and> andThen (parseJSON E s) (parseJestResults E) = Inl e)"
  shows "JestTestRunner_runTests E (Rejected msg out)
           = Inr [\<lparr>testId = Some (JStr ''test-execution-error''), passed = False,
                   error = Some msg, duration = JNum 0\<rparr>]
       \<and> PlaywrightTestRunner_runTests E (Rejected msg out)
           = Inr [\<lparr>testId = Some (JStr ''test-execution-error''), passed = False,
                   error = Some msg, duration = JNum 0\<rparr>]
       \<and> as_TestResults [\<lparr>testId = Some (JStr ''test-execution-error''), passed = False,
                          error = Some msg, duration = JNum 0\<rparr>]
           = Some [\<lparr>testId = ''test-execution-error'', passed = False,
                    error = Some msg, duration = 0\<rparr>]
       \<and> Some msg \<noteq> Some []"
proof -
  have "jest_recover E (ExecError msg out) = None"
    using assms(2) by (auto simp: jest_recover_def)
  then show ?thesis
    using assms(1)
    by (simp add: JestTestRunner_runTests_def PlaywrightTestRunner_runTests_def
          executionError_def as_TestResults_def as_TestResult_def)
qed

theorem execution_failure_yields_one_result_witness:
  "''Command failed: npx jest'' \<noteq> []
   \<and> andThen (parseJSON example_engine ''not json'') (parseJestResults example_engine)
       = Inl (SyntaxError ''Unexpected token'')
   \<and> JestTestRunner_runTests example_engine
         (Rejected ''Command failed: npx jest'' (Some ''not json''))
       = Inr [\<lparr>testId = Some (JStr ''test-execution-error''), passed = False,
               error = Some ''Command failed: npx jest'', duration = JNum 0\<rparr>]
   \<and> PlaywrightTestRunner_runTests example_engine
         (Rejected ''Command failed: npx jest'' (Some ''not json''))
       = Inr [\<lparr>testId = Some (JStr ''test-execution-error''), passed = False,
               error = Some ''Command failed: npx jest'', duration = JNum 0\<rparr>]"
proof -
  have p: "andThen (parseJSON example_engine ''not json'') (parseJestResults example_engine)
       = Inl (SyntaxError ''Unexpected token'')"
    by (simp add: parseJSON_def example_engine_def)
  have m: "''Command failed: npx jest'' \<noteq> []" by simp
  have h: "Some ''not json'' = None \<or> Some ''not json'' = Some []
         \<or> (\<exists>s e. Some ''not json'' = Some s
                  \<and> andThen (parseJSON example_engine s) (parseJestResults example_engine)
                      = Inl e)"
    using p by blast
  show ?thesis
    using execution_failure_yields_one_result[OF m h] p by simp
qed

section \<open>Report generation\<close>

text \<open>With a supported format the directory is made and the file written, under a name
  that carries the first reading of the clock with its colons replaced.\<close>

lemma generateReport_json_example:
  "generateReport example_engine mem_ops ''2024-01-02T03:04:05.000Z'' ''T2'' [failing_result]
     (analyzeResults example_engine [failing_result])
     \<lparr>format = ''json'', outputPath = ''out'', filename = None, includeTimestamp = None\<rparr>
     empty_fs
   = (Inr ''out/test-report-2024-01-02T03-04-05.000Z.json'',
      \<lparr>dirs = [''out''],
       files = [(''out/test-report-2024-01-02T03-04-05.000Z.json'', ''{}'')]\<rparr>)"
  by (simp add: generateReport_def report_content_def mem_ops_def empty_fs_def str_or_def
        generateJsonReport_def example_engine_def replaceAll_Cons Let_def)

text \<open>
  C2, as the specification states it: with a format that is neither \<open>json\<close> nor \<open>xml\<close>,
  \<open>generateReport\<close> fails before any side effect, so that no output directory is created.
  It fails for the format \<open>html\<close> on the empty file system: the call fails with
  \<open>Unsupported report format: html\<close>, and the directory \<open>reports\<close> exists afterwards.
\<close>

theorem unsupported_format_counterexample:
  "generateReport example_engine mem_ops ''T1'' ''T2'' [] (analyzeResults example_engine []) html_options
     empty_fs
     = (Inl (PlainError ''Unsupported report format: html''),
        \<lparr>dirs = [''reports''], files = []\<rparr>)
   \<and> snd (generateReport example_engine mem_ops ''T1'' ''T2'' [] (analyzeResults example_engine [])
             html_options empty_fs) \<noteq> empty_fs"
  by (simp add: generateReport_def report_content_def html_options_def mem_ops_def empty_fs_def)

text \<open>
  C2, amended. With a format that is neither \<open>json\<close> nor \<open>xml\<close>, \<open>generateReport\<close> first asks
  for the output directory to be made. When that fails, the call fails with that error;
  otherwise the call fails with \<open>Unsupported report format:\<close> followed by the format. In
  both cases the file system is left as \<open>mkdir\<close> left it: no file is written.
\<close>

theorem unsupported_format_fails_after_mkdir:
  assumes "format options \<noteq> ''json''" and "format options \<noteq> ''xml''"
  shows "generateReport E ops t1 t2 results analysis options fs0 =
     (case mkdir ops (outputPath options) fs0 of
        (Some m, fs1) \<Rightarrow> (Inl (PlainError m), fs1)
      | (None, fs1) \<Rightarrow>
          (Inl (PlainError (''Unsupported report format: '' @ format options)), fs1))"
  using assms
  by (simp add: generateReport_def report_content_def Let_def split: prod.splits option.splits)

theorem unsupported_format_fails_after_mkdir_witness:
  "format csv_options \<noteq> ''json'' \<and> format csv_options \<noteq> ''xml''
   \<and> generateReport example_engine mem_ops ''T1'' ''T2'' [failing_result]
        (analyzeResults example_engine [failing_result]) csv_options empty_fs
       = (Inl (PlainError ''Unsupported report format: csv''),
          \<lparr>dirs = [''out''], files = []\<rparr>)"
proof -
  have a: "format csv_options \<noteq> ''json''" and b: "format csv_options \<noteq> ''xml''"
    by (simp_all add: csv_options_def)
  show ?thesis
    using unsupported_format_fails_after_mkdir
            [OF a b, of example_engine mem_ops "''T1''" "''T2''" "[failing_result]"
                "analyzeResults example_engine [failing_result]" empty_fs] a b
    by (simp add: csv_options_def mem_ops_def empty_fs_def)
qed

end
